theory Spec2Isabelle
  imports Main "HOL-Library.Sublist"
begin

section \<open>Data model (app/db/models.py)\<close>

text \<open>
  Identifiers are UUIDs in the source; here they are natural numbers drawn from a
  counter of the world, so that a fresh one is always available. Text is a \<open>string\<close>.
  Timestamps are readings of a clock of the world.
\<close>

type_synonym uuid = nat

datatype run_status = Queued | Running | Succeeded | Failed

datatype delivery_state = DPending | DSucceeded | DFailed

datatype sender_kind = User | Assistant | System

text \<open>
  \<open>content_json\<close> is either \<open>{"type": "text", "text": ...}\<close> or
  \<open>{"type": "image", "url": ..., "caption": ...}\<close>. The \<open>metadata\<close> entry of a
  posted text is never read by the pipeline and is left out.
\<close>

datatype content = Text string | Image string string

record message =
  message_id :: uuid
  message_conversation_id :: uuid
  sender :: sender_kind
  content_json :: content

record agent_run =
  run_id :: uuid
  run_conversation_id :: uuid
  trigger_message_id :: uuid
  status :: run_status
  started_at :: "nat option"
  finished_at :: "nat option"
  last_error :: "string option"

record media_row =
  media_id :: uuid
  media_conversation_id :: uuid
  media_type :: string
  storage_path :: string

record integration_delivery =
  delivery_id :: uuid
  delivery_run_id :: uuid
  delivery_status :: delivery_state
  attempts :: nat
  delivery_error :: "string option"

text \<open>
  The tables. Runs, deliveries and conversations are looked up and updated by primary
  key; messages and media are only ever appended, in creation order (the order the
  source asks for with \<open>order_by(created_at.asc())\<close>). A conversation is stored as its
  owner's id.
\<close>

record database =
  conversations :: "uuid \<rightharpoonup> uuid"
  runs :: "uuid \<rightharpoonup> agent_run"
  messages :: "message list"
  media :: "media_row list"
  deliveries :: "uuid \<rightharpoonup> integration_delivery"

section \<open>The world a request or a job runs in\<close>

text \<open>
  \<open>session\<close> is what the open SQLAlchemy session sees: the committed rows and what it
  has added, flushed or changed since. \<open>committed\<close> is what every other reader sees.
  \<open>history\<close> keeps each committed state in order, oldest first: it is what a poller can
  observe over time. \<open>files\<close> are the paths written under the media directory,
  \<open>slept\<close> the arguments of \<open>time.sleep\<close> in order, \<open>queue\<close> the run ids handed to
  the job queue. \<open>pending_rollback\<close> says that a flush of this session was refused:
  the transaction has been rolled back, and since nothing in the source calls
  \<open>rollback\<close>, every later use of the session raises.
\<close>

record world =
  session :: database
  committed :: database
  history :: "database list"
  files :: "string list"
  log :: "string list"
  slept :: "nat list"
  clock :: nat
  next_uuid :: uuid
  queue :: "uuid list"
  pending_rollback :: bool

record payload =
  p_user_id :: uuid
  p_conversation_id :: uuid
  p_run_id :: uuid
  p_final_text :: string
  p_created_at :: nat
  p_has_visualization :: bool

datatype http_result = Response nat string | TransportError string

type_synonym turn = "string \<times> string"

text \<open>
  The settings (app/core/config.py) and the collaborators. Each collaborator the source
  guards with a \<open>try\<close> is an oracle that answers or raises: the generation capability
  (\<open>Inl\<close> is the exception's text), the HTTP post of each attempt, and the steps of the
  visualisation (\<open>Some e\<close>: that step raises \<open>e\<close>).
\<close>

record env =
  GEMINI_API_KEY :: "string option"
  INTEGRATION_URL :: "string option"
  MEDIA_DIR :: string
  send_message :: "turn list \<Rightarrow> string \<Rightarrow> string + string"
  http_post :: "string \<Rightarrow> payload \<Rightarrow> nat \<Rightarrow> http_result"
  makedirs_error :: "string option"
  savefig_error :: "string option"
  media_insert_error :: "string option"
  image_insert_error :: "string option"

definition upd_session :: "(database \<Rightarrow> database) \<Rightarrow> world \<Rightarrow> world" where
  "upd_session f w = w\<lparr>session := f (session w)\<rparr>"

definition commit :: "world \<Rightarrow> world" where
  "commit w = w\<lparr>committed := session w, history := history w @ [session w]\<rparr>"

definition log_event :: "string \<Rightarrow> world \<Rightarrow> world" where
  "log_event e w = w\<lparr>log := log w @ [e]\<rparr>"

definition sleep :: "nat \<Rightarrow> world \<Rightarrow> world" where
  "sleep d w = w\<lparr>slept := slept w @ [d], clock := clock w + d\<rparr>"

text \<open>
  A flush the database refuses: SQLAlchemy rolls the transaction back, so the session
  is left with the committed rows only, and marks the session as waiting for a
  rollback.
\<close>

definition refuse_flush :: "world \<Rightarrow> world" where
  "refuse_flush w = w\<lparr>session := committed w, pending_rollback := True\<rparr>"

definition pending_rollback_error :: string where
  "pending_rollback_error =
     ''PendingRollbackError: the transaction has been rolled back due to a previous exception during flush''"

definition uuid4 :: "world \<Rightarrow> uuid \<times> world" where
  "uuid4 w = (next_uuid w, w\<lparr>next_uuid := Suc (next_uuid w)\<rparr>)"

text \<open>Python's \<open>str\<close> of a non-negative integer.\<close>

definition digit_char :: "nat \<Rightarrow> char" where
  "digit_char d = char_of (48 + d)"

function str_nat :: "nat \<Rightarrow> string" where
  "str_nat n = (if n < 10 then [digit_char n] else str_nat (n div 10) @ [digit_char (n mod 10)])"
  by pat_completeness auto
termination
  by (relation "measure id") auto

declare str_nat.simps [simp del]

section \<open>Integration delivery (app/services/integration.py)\<close>

definition max_attempts :: nat where
  "max_attempts = 3"

definition backoff_delays :: "nat list" where
  "backoff_delays = [1, 2, 4]"

definition update_delivery ::
  "uuid \<Rightarrow> (integration_delivery \<Rightarrow> integration_delivery) \<Rightarrow> world \<Rightarrow> world" where
  "update_delivery did f w =
     upd_session (\<lambda>db. db\<lparr>deliveries := (deliveries db)(did := map_option f (deliveries db did))\<rparr>) w"

text \<open>
  One pass of the body of \<open>for attempt in range(max_attempts)\<close>, up to the wait.
  The flag says whether the function returned from inside the loop (a success).
\<close>

definition delivery_attempt ::
  "env \<Rightarrow> string \<Rightarrow> payload \<Rightarrow> uuid \<Rightarrow> nat \<Rightarrow> world \<Rightarrow> bool \<times> world" where
  "delivery_attempt e url p did attempt w =
     (let w1 = commit (update_delivery did (\<lambda>d. d\<lparr>attempts := attempt + 1\<rparr>) w);
          w2 = log_event ''Integration delivery attempt'' w1
      in case http_post e url p attempt of
           Response code body \<Rightarrow>
             if code \<in> set [200, 201, 202]
             then (True, log_event ''Integration delivery succeeded''
                     (commit (update_delivery did (\<lambda>d. d\<lparr>delivery_status := DSucceeded\<rparr>) w2)))
             else (False, log_event ''Integration delivery failed with bad status code''
                     (commit (update_delivery did
                        (\<lambda>d. d\<lparr>delivery_error := Some (''HTTP '' @ str_nat code @ '': '' @ take 200 body)\<rparr>) w2)))
         | TransportError msg \<Rightarrow>
             (False, log_event ''Integration delivery failed with exception''
                (commit (update_delivery did (\<lambda>d. d\<lparr>delivery_error := Some msg\<rparr>) w2))))"

text \<open>\<open>if attempt < max_attempts - 1: time.sleep(backoff_delays[attempt])\<close>\<close>

definition wait_before_retry :: "nat \<Rightarrow> world \<Rightarrow> world" where
  "wait_before_retry attempt w =
     (if attempt < max_attempts - 1
      then sleep (backoff_delays ! attempt) (log_event ''Waiting before retry'' w)
      else w)"

function attempts_from ::
  "env \<Rightarrow> string \<Rightarrow> payload \<Rightarrow> uuid \<Rightarrow> nat \<Rightarrow> world \<Rightarrow> bool \<times> world" where
  "attempts_from e url p did attempt w =
     (if attempt < max_attempts
      then (case delivery_attempt e url p did attempt w of
              (True, w') \<Rightarrow> (True, w')
            | (False, w') \<Rightarrow> attempts_from e url p did (attempt + 1) (wait_before_retry attempt w'))
      else (False, w))"
  by pat_completeness auto
termination
  by (relation "measure (\<lambda>(e, url, p, did, attempt, w). max_attempts - attempt)") auto

declare attempts_from.simps [simp del]

definition send_to_external_system :: "uuid \<Rightarrow> payload \<Rightarrow> env \<Rightarrow> world \<Rightarrow> world" where
  "send_to_external_system rid p e w =
     (case INTEGRATION_URL e of
        None \<Rightarrow> log_event ''Integration disabled (INTEGRATION_URL not set)'' w
      | Some url \<Rightarrow>
          if url = [] then log_event ''Integration disabled (INTEGRATION_URL not set)'' w
          else
            (let (did, w1) = uuid4 w;
                 delivery = \<lparr>delivery_id = did, delivery_run_id = rid, delivery_status = DPending,
                             attempts = 0, delivery_error = None\<rparr>;
                 w2 = commit (upd_session (\<lambda>db. db\<lparr>deliveries := (deliveries db)(did \<mapsto> delivery)\<rparr>) w1);
                 w3 = log_event ''Starting integration delivery'' w2
             in case attempts_from e url p did 0 w3 of
                  (True, w4) \<Rightarrow> w4
                | (False, w4) \<Rightarrow>
                    log_event ''Integration delivery failed after all attempts''
                      (commit (update_delivery did (\<lambda>d. d\<lparr>delivery_status := DFailed\<rparr>) w4))))"

section \<open>Visualisation (app/services/visuals.py)\<close>

text \<open>
  \<open>os.path.join\<close> of two components. The file name built from a fresh identifier
  never starts with a slash; the branch is kept as the library has it.
\<close>

definition path_join :: "string \<Rightarrow> string \<Rightarrow> string" where
  "path_join a b =
     (if b \<noteq> [] \<and> hd b = CHR ''/'' then b
      else if a = [] \<or> last a = CHR ''/'' then a @ b
      else a @ ''/'' @ b)"

text \<open>
  \<open>generate_chart\<close> returns \<open>Inr\<close> of the new media id as a string, or \<open>Inl\<close> of the
  exception it raises, each with the world as it stands then. The rendering itself is
  a fixed demo figure; what matters here is which steps have had their effect: the
  file exists once \<open>savefig\<close> has returned, the Media row once its flush has.
  Nothing in the function (or its caller) removes a file again. \<open>os.makedirs\<close> and
  the rendering raise without touching the database; a refused flush of the Media row
  rolls the transaction back.
\<close>

definition generate_chart ::
  "string \<Rightarrow> uuid \<Rightarrow> env \<Rightarrow> world \<Rightarrow> (string \<times> world) + (string \<times> world)" where
  "generate_chart user_text conversation_id e w =
     (case makedirs_error e of
        Some err \<Rightarrow> Inl (err, w)
      | None \<Rightarrow>
          (let (mid, w1) = uuid4 w;
               filename = str_nat mid @ ''.png'';
               filepath = path_join (MEDIA_DIR e) filename;
               w2 = log_event ''Generating chart'' w1
           in case savefig_error e of
                Some err \<Rightarrow> Inl (err, log_event ''Failed to generate chart'' w2)
              | None \<Rightarrow>
                  (let w3 = log_event ''Chart generated successfully''
                              (w2\<lparr>files := files w2 @ [filepath]\<rparr>)
                   in case media_insert_error e of
                        Some err \<Rightarrow>
                          Inl (err, log_event ''Failed to generate chart'' (refuse_flush w3))
                      | None \<Rightarrow>
                          Inr (str_nat mid,
                               upd_session (\<lambda>db. db\<lparr>media := media db @
                                 [\<lparr>media_id = mid, media_conversation_id = conversation_id,
                                   media_type = ''image/png'', storage_path = filepath\<rparr>]\<rparr>) w3))))"

section \<open>The agent runner (app/services/agent_runner.py)\<close>

datatype outcome = Returned | Raised string

definition update_run :: "uuid \<Rightarrow> (agent_run \<Rightarrow> agent_run) \<Rightarrow> world \<Rightarrow> world" where
  "update_run rid f w =
     upd_session (\<lambda>db. db\<lparr>runs := (runs db)(rid := map_option f (runs db rid))\<rparr>) w"

text \<open>\<open>content_json.get("text", "")\<close>\<close>

fun get_text :: "content \<Rightarrow> string" where
  "get_text (Text body) = body"
| "get_text (Image url caption) = []"

text \<open>
  \<open>str.lower\<close> on the letters A to Z. No character outside them lowers to a letter
  of the two keywords, so the keyword test below reads the same.
\<close>

definition lower_char :: "char \<Rightarrow> char" where
  "lower_char c =
     (if 65 \<le> (of_char c :: nat) \<and> (of_char c :: nat) \<le> 90 then char_of (of_char c + 32 :: nat) else c)"

definition lower :: "string \<Rightarrow> string" where
  "lower s = map lower_char s"

text \<open>Python's \<open>sub in s\<close> on strings.\<close>

fun contains :: "string \<Rightarrow> string \<Rightarrow> bool" where
  "contains sub [] = (sub = [])"
| "contains sub (c # cs) = (prefix sub (c # cs) \<or> contains sub cs)"

definition generate_visual :: "string \<Rightarrow> bool" where
  "generate_visual user_text =
     (contains ''plot:'' (lower user_text) \<or> contains ''chart:'' (lower user_text))"

fun conversation_context :: "message list \<Rightarrow> turn list" where
  "conversation_context [] = []"
| "conversation_context (msg # msgs) =
     (case sender msg of
        User \<Rightarrow> (''user'', get_text (content_json msg)) # conversation_context msgs
      | Assistant \<Rightarrow> (''model'', get_text (content_json msg)) # conversation_context msgs
      | System \<Rightarrow> conversation_context msgs)"

definition run_gemini_agent :: "env \<Rightarrow> turn list \<Rightarrow> string \<Rightarrow> world \<Rightarrow> string \<times> world" where
  "run_gemini_agent e ctx user_text w =
     (if GEMINI_API_KEY e = None \<or> GEMINI_API_KEY e = Some []
      then (''Echo: '' @ user_text, log_event ''Gemini API key not set, using echo response'' w)
      else (case send_message e (if length ctx > 1 then butlast ctx else []) user_text of
              Inr text \<Rightarrow> (text, w)
            | Inl err \<Rightarrow> (''I received your message: '' @ user_text,
                          log_event (''Gemini API call failed: '' @ err) w)))"

definition add_message :: "uuid \<Rightarrow> sender_kind \<Rightarrow> content \<Rightarrow> world \<Rightarrow> uuid \<times> world" where
  "add_message conversation_id s c w =
     (let (mid, w1) = uuid4 w
      in (mid, upd_session (\<lambda>db. db\<lparr>messages := messages db @
            [\<lparr>message_id = mid, message_conversation_id = conversation_id,
              sender = s, content_json = c\<rparr>]\<rparr>) w1))"

text \<open>The text of the \<open>AttributeError\<close> raised by an attribute read on \<open>None\<close>.\<close>

definition attribute_error :: "string \<Rightarrow> string" where
  "attribute_error attr =
     [char_of (39 :: nat)] @ ''NoneType'' @ [char_of (39 :: nat)] @ '' object has no attribute '' @
     [char_of (39 :: nat)] @ attr @ [char_of (39 :: nat)]"

text \<open>
  The block \<open>if generate_visual: try: ... except Exception\<close>. It yields the value of
  \<open>media_id\<close> after the block: the variable is assigned as soon as \<open>generate_chart\<close>
  returns, before the image message is inserted. The handler only logs: after a
  refused flush the session is left as the flush left it.
\<close>

definition visualization_step ::
  "bool \<Rightarrow> string \<Rightarrow> uuid \<Rightarrow> env \<Rightarrow> world \<Rightarrow> string option \<times> world" where
  "visualization_step wanted user_text conversation_id e w =
     (if wanted then
        (case generate_chart user_text conversation_id e w of
           Inl (err, w1) \<Rightarrow> (None, log_event ''Failed to generate visualization'' w1)
         | Inr (mid, w1) \<Rightarrow>
             if mid \<noteq> [] then
               (case image_insert_error e of
                  Some err \<Rightarrow>
                    (Some mid, log_event ''Failed to generate visualization'' (refuse_flush w1))
                | None \<Rightarrow>
                    (Some mid, log_event ''Visualization generated and message created''
                       (snd (add_message conversation_id Assistant
                          (Image (''/v1/media/'' @ mid) ''Generated visualization'') w1))))
             else (Some mid, w1))
      else (None, w))"

text \<open>
  The body of the outer \<open>try\<close> of \<open>execute_agent_run\<close>: \<open>Inl\<close> is an exception
  that reaches the handler, with the world as it stands when it is raised. The first
  use of the session after the visualisation block is the load of
  \<open>agent_run.conversation\<close> for the payload; it raises when a rollback is pending.
\<close>

definition run_pipeline ::
  "uuid \<Rightarrow> agent_run \<Rightarrow> env \<Rightarrow> world \<Rightarrow> (string \<times> world) + world" where
  "run_pipeline rid agent_run e w =
     (let msgs = filter (\<lambda>m. message_conversation_id m = run_conversation_id agent_run)
                   (messages (session w))
      in case find (\<lambda>m. message_id m = trigger_message_id agent_run) (messages (session w)) of
           None \<Rightarrow> Inl (attribute_error ''content_json'', w)
         | Some trigger_message \<Rightarrow>
             (let user_text = get_text (content_json trigger_message);
                  wanted = generate_visual user_text;
                  (response_text, w1) = run_gemini_agent e (conversation_context msgs) user_text w;
                  w2 = log_event ''Assistant message created''
                         (snd (add_message (run_conversation_id agent_run) Assistant
                                 (Text response_text) w1));
                  (media_id, w3) = visualization_step wanted user_text
                                     (run_conversation_id agent_run) e w2
              in if pending_rollback w3 then Inl (pending_rollback_error, w3)
                 else case conversations (session w3) (run_conversation_id agent_run) of
                   None \<Rightarrow> Inl (attribute_error ''user_id'', w3)
                 | Some user_id \<Rightarrow>
                     (let integration_payload =
                            \<lparr>p_user_id = user_id,
                             p_conversation_id = run_conversation_id agent_run,
                             p_run_id = rid, p_final_text = response_text,
                             p_created_at = clock w3,
                             p_has_visualization = (media_id \<noteq> None)\<rparr>;
                          w4 = send_to_external_system rid integration_payload e w3;
                          w5 = commit (update_run rid
                                 (\<lambda>r. r\<lparr>status := Succeeded, finished_at := Some (clock w4)\<rparr>) w4)
                      in Inr (log_event ''Agent run completed successfully'' w5))))"

text \<open>
  In the handler the three attributes are set and \<open>db.commit()\<close> is called; with a
  rollback pending the commit raises in its turn, before anything is written or logged,
  and that exception leaves the function.
\<close>

definition execute_agent_run :: "uuid \<Rightarrow> env \<Rightarrow> world \<Rightarrow> outcome \<times> world" where
  "execute_agent_run rid e w =
     (case runs (session w) rid of
        None \<Rightarrow> (Returned, log_event ''Agent run not found'' w)
      | Some agent_run \<Rightarrow>
          (let w1 = commit (update_run rid
                      (\<lambda>r. r\<lparr>status := Running, started_at := Some (clock w)\<rparr>) w);
               w2 = log_event ''Agent run started'' w1
           in case run_pipeline rid agent_run e w2 of
                Inr w3 \<Rightarrow> (Returned, w3)
              | Inl (err, w3) \<Rightarrow>
                  (let w4 = update_run rid
                              (\<lambda>r. r\<lparr>status := Failed, finished_at := Some (clock w3),
                                      last_error := Some err\<rparr>) w3
                   in if pending_rollback w4 then (Raised pending_rollback_error, w4)
                      else (Raised err, log_event ''Agent run failed'' (commit w4)))))"

section \<open>The job (app/worker/jobs.py)\<close>

text \<open>
  A job opens a session of its own, which starts from the committed state, and closes
  it in a \<open>finally\<close>, which drops whatever was not committed.
\<close>

definition open_session :: "world \<Rightarrow> world" where
  "open_session w = w\<lparr>session := committed w, pending_rollback := False\<rparr>"

definition close_session :: "world \<Rightarrow> world" where
  "close_session w = w\<lparr>session := committed w, pending_rollback := False\<rparr>"


section \<open>Posting a message (app/api/routes/messages.py, app/services/enqueue.py)\<close>

datatype request_fault = FlushRaises string | CommitRaises string | EnqueueRaises string

datatype post_response = Accepted uuid uuid run_status | NotFound | ServerError string

text \<open>
  \<open>enqueue_agent_run\<close> hands the run id to the queue, a call to Redis that raises
  when Redis cannot be reached (\<open>Some err\<close>).
\<close>

definition enqueue_agent_run :: "uuid \<Rightarrow> string option \<Rightarrow> world \<Rightarrow> string + world" where
  "enqueue_agent_run rid redis_error w =
     (case redis_error of
        Some err \<Rightarrow> Inl err
      | None \<Rightarrow> Inr (log_event ''Agent run job enqueued'' (w\<lparr>queue := queue w @ [rid]\<rparr>)))"

text \<open>
  \<open>post_message\<close> in its request: the session is opened by \<open>get_db\<close> and closed in
  its \<open>finally\<close>. \<open>fault\<close> says which call, if any, raises: the flush of the message,
  the commit, or the enqueue that follows the commit. Nothing in the handler catches
  any of them, so the request fails; what was committed before stays committed.
\<close>

definition post_message ::
  "uuid \<Rightarrow> string \<Rightarrow> uuid \<Rightarrow> request_fault option \<Rightarrow> world \<Rightarrow> post_response \<times> world" where
  "post_message conversation_id text current_user fault w0 =
     (let w = open_session w0
      in if conversations (session w) conversation_id \<noteq> Some current_user
         then (NotFound, close_session w)
         else (case fault of
                 Some (FlushRaises err) \<Rightarrow> (ServerError err, close_session w)
               | _ \<Rightarrow>
                   (let (mid, w1) = add_message conversation_id User (Text text) w;
                        (rid, w2) = uuid4 w1;
                        agent_run = \<lparr>run_id = rid, run_conversation_id = conversation_id,
                                     trigger_message_id = mid, status = Queued,
                                     started_at = None, finished_at = None, last_error = None\<rparr>;
                        w3 = upd_session (\<lambda>db. db\<lparr>runs := (runs db)(rid \<mapsto> agent_run)\<rparr>) w2
                    in case fault of
                         Some (CommitRaises err) \<Rightarrow> (ServerError err, close_session w3)
                       | _ \<Rightarrow>
                           (let w4 = log_event ''User message posted, agent run queued'' (commit w3);
                                redis_error = (case fault of
                                                 Some (EnqueueRaises err) \<Rightarrow> Some err
                                               | _ \<Rightarrow> None)
                            in case enqueue_agent_run rid redis_error w4 of
                                 Inl err \<Rightarrow> (ServerError err, close_session w4)
                               | Inr w5 \<Rightarrow> (Accepted mid rid Queued, close_session w5)))))"

section \<open>Notions used in the statements and proofs\<close>

text \<open>
  Two database states with the same conversations, runs, messages and media (they may
  differ in their deliveries).
\<close>

definition same_content :: "database \<Rightarrow> database \<Rightarrow> bool" where
  "same_content a b \<longleftrightarrow>
     conversations a = conversations b \<and> runs a = runs b \<and> messages a = messages b \<and>
     media a = media b"

text \<open>
  \<open>delivery_only w w'\<close>: going from \<open>w\<close> to \<open>w'\<close> changed nothing in the session but
  deliveries, wrote no file, enqueued nothing, and every state committed on the way has
  the content of the session of \<open>w\<close>.
\<close>

definition delivery_only :: "world \<Rightarrow> world \<Rightarrow> bool" where
  "delivery_only w w' \<longleftrightarrow>
     same_content (session w') (session w) \<and> files w' = files w \<and> queue w' = queue w \<and>
     (\<exists>hs. history w' = history w @ hs \<and> list_all (\<lambda>s. same_content s (session w)) hs)"

text \<open>What the visualisation block never touches.\<close>

definition visual_frame :: "world \<Rightarrow> world \<Rightarrow> bool" where
  "visual_frame w w' \<longleftrightarrow>
     committed w' = committed w \<and> history w' = history w \<and> slept w' = slept w \<and>
     queue w' = queue w \<and> clock w' = clock w"

text \<open>
  The visualisation block runs into a refused flush: it is wanted, the directory and
  the picture are made, and the insert of the Media row or of the Image message is
  refused.
\<close>

definition flush_refused :: "env \<Rightarrow> bool \<Rightarrow> bool" where
  "flush_refused e wanted \<longleftrightarrow>
     wanted \<and> makedirs_error e = None \<and> savefig_error e = None \<and>
     (media_insert_error e \<noteq> None \<or> image_insert_error e \<noteq> None)"



fun is_text :: "content \<Rightarrow> bool" where
  "is_text (Text body) = True"
| "is_text (Image url caption) = False"

text \<open>
  Names for the stages of one run of the pipeline body on run \<open>r\<close> with trigger
  message \<open>t\<close>: the context handed to the capability, the reply it yields, the world
  once the reply has been inserted, and the result of the visualisation block.
\<close>

definition run_context :: "agent_run \<Rightarrow> world \<Rightarrow> turn list" where
  "run_context r w =
     conversation_context
       (filter (\<lambda>m. message_conversation_id m = run_conversation_id r) (messages (session w)))"

definition reply_text :: "agent_run \<Rightarrow> message \<Rightarrow> env \<Rightarrow> world \<Rightarrow> string" where
  "reply_text r t e w = fst (run_gemini_agent e (run_context r w) (get_text (content_json t)) w)"

definition after_reply :: "agent_run \<Rightarrow> message \<Rightarrow> env \<Rightarrow> world \<Rightarrow> world" where
  "after_reply r t e w =
     log_event ''Assistant message created''
       (snd (add_message (run_conversation_id r) Assistant (Text (reply_text r t e w))
               (snd (run_gemini_agent e (run_context r w) (get_text (content_json t)) w))))"

definition after_visual :: "agent_run \<Rightarrow> message \<Rightarrow> env \<Rightarrow> world \<Rightarrow> string option \<times> world" where
  "after_visual r t e w =
     visualization_step (generate_visual (get_text (content_json t))) (get_text (content_json t))
       (run_conversation_id r) e (after_reply r t e w)"

text \<open>The world once the run has been claimed: status running, committed, logged.\<close>

definition started_world :: "uuid \<Rightarrow> world \<Rightarrow> world" where
  "started_world rid w =
     log_event ''Agent run started''
       (commit (update_run rid (\<lambda>r. r\<lparr>status := Running, started_at := Some (clock w)\<rparr>) w))"

text \<open>
  How an execution ends and the status of the run it leaves committed, read off the
  state it starts from and the faults of the visualisation. The integration settings
  do not occur in it.
\<close>

definition pipeline_result :: "env \<Rightarrow> world \<Rightarrow> uuid \<Rightarrow> outcome \<times> run_status option" where
  "pipeline_result e w rid =
     (case runs (session w) rid of
        None \<Rightarrow> (Returned, map_option status (runs (committed w) rid))
      | Some r \<Rightarrow>
          (case find (\<lambda>m. message_id m = trigger_message_id r) (messages (session w)) of
             None \<Rightarrow>
               if pending_rollback w then (Raised pending_rollback_error, Some Running)
               else (Raised (attribute_error ''content_json''), Some Failed)
           | Some t \<Rightarrow>
               if pending_rollback w \<or> flush_refused e (generate_visual (get_text (content_json t)))
               then (Raised pending_rollback_error, Some Running)
               else (case conversations (session w) (run_conversation_id r) of
                       None \<Rightarrow> (Raised (attribute_error ''user_id''), Some Failed)
                     | Some u \<Rightarrow> (Returned, Some Succeeded))))"

text \<open>
  What a request to post \<open>x\<close> in conversation \<open>cid\<close> can leave behind: the message
  and the run that points to it, both in the one committed state it adds; or nothing.
\<close>

definition created_together :: "uuid \<Rightarrow> string \<Rightarrow> world \<Rightarrow> world \<Rightarrow> bool" where
  "created_together cid x w w' \<longleftrightarrow>
     messages (committed w') = messages (committed w) @
       [\<lparr>message_id = next_uuid w, message_conversation_id = cid, sender = User,
         content_json = Text x\<rparr>] \<and>
     runs (committed w') = (runs (committed w))(Suc (next_uuid w) \<mapsto>
       \<lparr>run_id = Suc (next_uuid w), run_conversation_id = cid,
        trigger_message_id = next_uuid w, status = Queued,
        started_at = None, finished_at = None, last_error = None\<rparr>) \<and>
     history w' = history w @ [committed w']"

definition nothing_created :: "world \<Rightarrow> world \<Rightarrow> bool" where
  "nothing_created w w' \<longleftrightarrow> committed w' = committed w \<and> history w' = history w"

subsection \<open>A small concrete world\<close>

text \<open>
  User 7 owns conversation 1, which holds the user's message 2; run 3 was created for
  it and is queued.
\<close>

definition demo_run :: agent_run where
  "demo_run = \<lparr>run_id = 3, run_conversation_id = 1, trigger_message_id = 2, status = Queued,
                started_at = None, finished_at = None, last_error = None\<rparr>"

definition demo_db :: "string \<Rightarrow> database" where
  "demo_db text =
     \<lparr>conversations = [1 \<mapsto> 7],
      runs = [3 \<mapsto> demo_run],
      messages = [\<lparr>message_id = 2, message_conversation_id = 1, sender = User,
                   content_json = Text text\<rparr>],
      media = [],
      deliveries = Map.empty\<rparr>"

definition demo_world :: "string \<Rightarrow> world" where
  "demo_world text =
     \<lparr>session = demo_db text, committed = demo_db text, history = [demo_db text],
      files = [], log = [], slept = [], clock = 100, next_uuid = 10, queue = [3],
      pending_rollback = False\<rparr>"

definition demo_env :: env where
  "demo_env =
     \<lparr>GEMINI_API_KEY = None, INTEGRATION_URL = None, MEDIA_DIR = ''./data/media'',
      send_message = (\<lambda>history text. Inr ''Hello!''),
      http_post = (\<lambda>url p attempt. Response 200 ''ok''),
      makedirs_error = None, savefig_error = None, media_insert_error = None,
      image_insert_error = None\<rparr>"

definition demo_payload :: payload where
  "demo_payload =
     \<lparr>p_user_id = 7, p_conversation_id = 1, p_run_id = 3, p_final_text = ''Echo: hello'',
      p_created_at = 100, p_has_visualization = False\<rparr>"

text \<open>The same settings with a webhook whose every answer is \<open>r\<close>.\<close>

definition hook_env :: "http_result \<Rightarrow> env" where
  "hook_env r = demo_env\<lparr>INTEGRATION_URL := Some ''http://hook.example/in'',
                         http_post := (\<lambda>url p attempt. r)\<rparr>"

text \<open>The demo world once the delivery record of run 3 has been inserted.\<close>

definition pending_delivery :: integration_delivery where
  "pending_delivery = \<lparr>delivery_id = 10, delivery_run_id = 3, delivery_status = DPending,
                        attempts = 0, delivery_error = None\<rparr>"

definition pending_world :: world where
  "pending_world =
     commit (upd_session (\<lambda>db. db\<lparr>deliveries := [10 \<mapsto> pending_delivery]\<rparr>) (demo_world ''hello''))"

section \<open>Integration delivery: the retry loop\<close>

lemmas world_ops = commit_def log_event_def sleep_def upd_session_def update_delivery_def uuid4_def

lemma str_nat_500: "str_nat 500 = ''500''"
  by code_simp

lemma str_nat_nonempty: "str_nat n \<noteq> []"
  by (subst str_nat.simps) simp

lemma attempts_from_0:
  "attempts_from e url p did 0 w =
     (case delivery_attempt e url p did 0 w of
        (True, w') \<Rightarrow> (True, w')
      | (False, w') \<Rightarrow>
          attempts_from e url p did (Suc 0) (sleep 1 (log_event ''Waiting before retry'' w')))"
  by (subst attempts_from.simps)
     (simp add: max_attempts_def wait_before_retry_def backoff_delays_def
        split: prod.splits bool.splits)

lemma attempts_from_1:
  "attempts_from e url p did (Suc 0) w =
     (case delivery_attempt e url p did (Suc 0) w of
        (True, w') \<Rightarrow> (True, w')
      | (False, w') \<Rightarrow>
          attempts_from e url p did (Suc (Suc 0)) (sleep 2 (log_event ''Waiting before retry'' w')))"
  by (subst attempts_from.simps)
     (simp add: max_attempts_def wait_before_retry_def backoff_delays_def
        split: prod.splits bool.splits)

lemma attempts_from_2:
  "attempts_from e url p did (Suc (Suc 0)) w = delivery_attempt e url p did (Suc (Suc 0)) w"
  by (subst attempts_from.simps, subst attempts_from.simps)
     (simp add: max_attempts_def wait_before_retry_def backoff_delays_def
        split: prod.splits bool.splits)

lemma delivery_attempt_ok:
  "http_post e url p attempt = Response code body \<Longrightarrow> code \<in> {200, 201, 202} \<Longrightarrow>
   delivery_attempt e url p did attempt w =
     (True, log_event ''Integration delivery succeeded''
        (commit (update_delivery did (\<lambda>d. d\<lparr>delivery_status := DSucceeded\<rparr>)
          (log_event ''Integration delivery attempt''
            (commit (update_delivery did (\<lambda>d. d\<lparr>attempts := attempt + 1\<rparr>) w))))))"
  by (auto simp: delivery_attempt_def Let_def)

lemma delivery_attempt_bad_status:
  "http_post e url p attempt = Response code body \<Longrightarrow> code \<notin> {200, 201, 202} \<Longrightarrow>
   delivery_attempt e url p did attempt w =
     (False, log_event ''Integration delivery failed with bad status code''
        (commit (update_delivery did
           (\<lambda>d. d\<lparr>delivery_error := Some (''HTTP '' @ str_nat code @ '': '' @ take 200 body)\<rparr>)
          (log_event ''Integration delivery attempt''
            (commit (update_delivery did (\<lambda>d. d\<lparr>attempts := attempt + 1\<rparr>) w))))))"
  by (simp add: delivery_attempt_def Let_def)

lemma delivery_attempt_exception:
  "http_post e url p attempt = TransportError msg \<Longrightarrow>
   delivery_attempt e url p did attempt w =
     (False, log_event ''Integration delivery failed with exception''
        (commit (update_delivery did (\<lambda>d. d\<lparr>delivery_error := Some msg\<rparr>)
          (log_event ''Integration delivery attempt''
            (commit (update_delivery did (\<lambda>d. d\<lparr>attempts := attempt + 1\<rparr>) w))))))"
  by (simp add: delivery_attempt_def Let_def)

lemma send_first_ok:
  assumes "INTEGRATION_URL e = Some url" and "url \<noteq> []"
    and "http_post e url p 0 = Response code body"
    and "code \<in> {200, 201, 202}"
  shows "deliveries (committed (send_to_external_system rid p e w)) =
           (deliveries (session w))(next_uuid w \<mapsto>
             \<lparr>delivery_id = next_uuid w, delivery_run_id = rid, delivery_status = DSucceeded,
              attempts = 1, delivery_error = None\<rparr>)
         \<and> slept (send_to_external_system rid p e w) = slept w
         \<and> clock (send_to_external_system rid p e w) = clock w"
  using assms(1,2) delivery_attempt_ok[OF assms(3,4)]
  by (simp add: send_to_external_system_def attempts_from_0 world_ops)

lemma send_all_500:
  assumes "INTEGRATION_URL e = Some url" and "url \<noteq> []"
    and "\<forall>i. http_post e url p i = Response 500 (body i)"
  shows "deliveries (committed (send_to_external_system rid p e w)) =
           (deliveries (session w))(next_uuid w \<mapsto>
             \<lparr>delivery_id = next_uuid w, delivery_run_id = rid, delivery_status = DFailed,
              attempts = 3, delivery_error = Some (''HTTP 500: '' @ take 200 (body 2))\<rparr>)
         \<and> slept (send_to_external_system rid p e w) = slept w @ [1, 2]
         \<and> clock (send_to_external_system rid p e w) = clock w + 3"
proof -
  have bad: "delivery_attempt e url p did i w' =
     (False, log_event ''Integration delivery failed with bad status code''
        (commit (update_delivery did
           (\<lambda>d. d\<lparr>delivery_error := Some (''HTTP 500: '' @ take 200 (body i))\<rparr>)
          (log_event ''Integration delivery attempt''
            (commit (update_delivery did (\<lambda>d. d\<lparr>attempts := i + 1\<rparr>) w'))))))" for did i w'
    using delivery_attempt_bad_status[where e = e and url = url and p = p and attempt = i
        and code = 500 and body = "body i" and did = did and w = w'] assms(3)
    by (simp add: str_nat_500)
  show ?thesis
    using assms(1,2)
    by (simp add: send_to_external_system_def attempts_from_0 attempts_from_1 attempts_from_2
        bad world_ops numeral_3_eq_3 numeral_2_eq_2)
qed

lemma send_all_exceptions:
  assumes "INTEGRATION_URL e = Some url" and "url \<noteq> []"
    and "\<forall>i. http_post e url p i = TransportError msg"
  shows "deliveries (committed (send_to_external_system rid p e w)) =
           (deliveries (session w))(next_uuid w \<mapsto>
             \<lparr>delivery_id = next_uuid w, delivery_run_id = rid, delivery_status = DFailed,
              attempts = 3, delivery_error = Some msg\<rparr>)"
proof -
  have bad: "delivery_attempt e url p did i w' =
     (False, log_event ''Integration delivery failed with exception''
        (commit (update_delivery did (\<lambda>d. d\<lparr>delivery_error := Some msg\<rparr>)
          (log_event ''Integration delivery attempt''
            (commit (update_delivery did (\<lambda>d. d\<lparr>attempts := i + 1\<rparr>) w'))))))" for did i w'
    using delivery_attempt_exception[where e = e and url = url and p = p and attempt = i
        and msg = msg and did = did and w = w'] assms(3)
    by simp
  show ?thesis
    using assms(1,2)
    by (simp add: send_to_external_system_def attempts_from_0 attempts_from_1 attempts_from_2
        bad world_ops numeral_3_eq_3 numeral_2_eq_2)
qed

lemma failed_attempt_records:
  assumes "deliveries (session w) did = Some d"
    and "\<not> fst (delivery_attempt e url p did attempt w)"
  shows "\<exists>d'. deliveries (committed (snd (delivery_attempt e url p did attempt w))) did = Some d' \<and>
           (case http_post e url p attempt of
              Response code body \<Rightarrow>
                delivery_error d' = Some (''HTTP '' @ str_nat code @ '': '' @ take 200 body) \<and>
                length (take 200 body) \<le> 200
            | TransportError msg \<Rightarrow> delivery_error d' = Some msg)"
  using assms
  by (cases "http_post e url p attempt")
     (auto simp: delivery_attempt_def Let_def world_ops split: if_splits)

section \<open>Properties of the integration delivery\<close>

text \<open>
  C7. If the integration endpoint is configured and the first attempt is answered with
  200, 201 or 202, \<open>send_to_external_system\<close> leaves one new Delivery record, with
  status succeeded and attempts 1, and never sleeps (the clock does not move either).
\<close>

theorem first_attempt_success:
  assumes "INTEGRATION_URL e = Some url" and "url \<noteq> []"
    and "http_post e url p 0 = Response code body"
    and "code \<in> {200, 201, 202}"
  shows "deliveries (committed (send_to_external_system rid p e w)) =
           (deliveries (session w))(next_uuid w \<mapsto>
             \<lparr>delivery_id = next_uuid w, delivery_run_id = rid, delivery_status = DSucceeded,
              attempts = 1, delivery_error = None\<rparr>)
         \<and> slept (send_to_external_system rid p e w) = slept w
         \<and> clock (send_to_external_system rid p e w) = clock w"
  using assms by (rule send_first_ok)

theorem first_attempt_success_witness:
  "INTEGRATION_URL (hook_env (Response 200 ''ok'')) = Some ''http://hook.example/in'' \<and>
   http_post (hook_env (Response 200 ''ok'')) ''http://hook.example/in'' demo_payload 0 = Response 200 ''ok'' \<and>
   deliveries (committed (send_to_external_system 3 demo_payload (hook_env (Response 200 ''ok'')) (demo_world ''hello''))) 10 =
     Some \<lparr>delivery_id = 10, delivery_run_id = 3, delivery_status = DSucceeded,
           attempts = 1, delivery_error = None\<rparr> \<and>
   slept (send_to_external_system 3 demo_payload (hook_env (Response 200 ''ok'')) (demo_world ''hello'')) = []"
  using first_attempt_success[of "hook_env (Response 200 ''ok'')" "''http://hook.example/in''"
      demo_payload 200 "''ok''" 3 "demo_world ''hello''"]
  by (simp add: hook_env_def demo_env_def demo_world_def)

text \<open>
  C2, as the code has it. If the integration endpoint is configured and every attempt
  is answered with HTTP 500, \<open>send_to_external_system\<close> leaves one new Delivery record,
  with status failed and attempts 3, and it sleeps twice, 1s and then 2s: 3 seconds in
  all. No wait follows the third attempt, so the last entry of the schedule is never
  used.
\<close>

theorem always_500_fails_after_three:
  assumes "INTEGRATION_URL e = Some url" and "url \<noteq> []"
    and "\<forall>i. http_post e url p i = Response 500 (body i)"
  shows "deliveries (committed (send_to_external_system rid p e w)) =
           (deliveries (session w))(next_uuid w \<mapsto>
             \<lparr>delivery_id = next_uuid w, delivery_run_id = rid, delivery_status = DFailed,
              attempts = 3, delivery_error = Some (''HTTP 500: '' @ take 200 (body 2))\<rparr>)
         \<and> slept (send_to_external_system rid p e w) = slept w @ [1, 2]
         \<and> clock (send_to_external_system rid p e w) = clock w + 3"
  using assms by (rule send_all_500)

theorem always_500_fails_after_three_witness:
  "INTEGRATION_URL (hook_env (Response 500 ''down'')) = Some ''http://hook.example/in'' \<and>
   deliveries (committed (send_to_external_system 3 demo_payload (hook_env (Response 500 ''down'')) (demo_world ''hello''))) 10 =
     Some \<lparr>delivery_id = 10, delivery_run_id = 3, delivery_status = DFailed,
           attempts = 3, delivery_error = Some ''HTTP 500: down''\<rparr> \<and>
   slept (send_to_external_system 3 demo_payload (hook_env (Response 500 ''down'')) (demo_world ''hello'')) = [1, 2]"
  using always_500_fails_after_three[of "hook_env (Response 500 ''down'')" "''http://hook.example/in''"
      demo_payload "\<lambda>i. ''down''" 3 "demo_world ''hello''"]
  by (simp add: hook_env_def demo_env_def demo_world_def)

text \<open>
  C2 as stated asks for 1s + 2s + 4s of backoff, at least 7 seconds. With every answer
  a 500 the delivery does fail after three attempts, but the waits add up to 3.
\<close>

theorem backoff_total_counterexample:
  "attempts (the (deliveries (committed (send_to_external_system 3 demo_payload
       (hook_env (Response 500 ''down'')) (demo_world ''hello''))) 10)) = 3 \<and>
   sum_list (slept (send_to_external_system 3 demo_payload
       (hook_env (Response 500 ''down'')) (demo_world ''hello''))) = 3 \<and>
   \<not> 7 \<le> sum_list (slept (send_to_external_system 3 demo_payload
       (hook_env (Response 500 ''down'')) (demo_world ''hello'')))"
  using send_all_500[of "hook_env (Response 500 ''down'')" "''http://hook.example/in''"
      demo_payload "\<lambda>i. ''down''" 3 "demo_world ''hello''"]
  by (simp add: hook_env_def demo_env_def demo_world_def)

text \<open>
  C9, as the code has it. After an attempt that did not succeed, \<open>last_error\<close> of the
  delivery holds: for an HTTP answer outside 200, 201, 202, the text
  \<open>HTTP <code>: \<close> followed by the first 200 characters of the response body; for a
  transport-level exception, the exception's text as it is, whatever its length.
\<close>

theorem failed_attempt_last_error:
  assumes "deliveries (session w) did = Some d"
    and "\<not> fst (delivery_attempt e url p did attempt w)"
  shows "\<exists>d'. deliveries (committed (snd (delivery_attempt e url p did attempt w))) did = Some d' \<and>
           (case http_post e url p attempt of
              Response code body \<Rightarrow>
                delivery_error d' = Some (''HTTP '' @ str_nat code @ '': '' @ take 200 body) \<and>
                length (take 200 body) \<le> 200
            | TransportError msg \<Rightarrow> delivery_error d' = Some msg)"
  using assms by (rule failed_attempt_records)

theorem failed_attempt_last_error_witness:
  "deliveries (session pending_world) 10 = Some pending_delivery \<and>
   \<not> fst (delivery_attempt (hook_env (Response 500 ''down'')) ''http://hook.example/in''
            demo_payload 10 0 pending_world) \<and>
   (\<exists>d'. deliveries (committed (snd (delivery_attempt (hook_env (Response 500 ''down''))
            ''http://hook.example/in'' demo_payload 10 0 pending_world))) 10 = Some d' \<and>
         delivery_error d' = Some ''HTTP 500: down'')"
proof -
  have present: "deliveries (session pending_world) 10 = Some pending_delivery"
    by (simp add: pending_world_def demo_world_def world_ops)
  have failed: "\<not> fst (delivery_attempt (hook_env (Response 500 ''down'')) ''http://hook.example/in''
            demo_payload 10 0 pending_world)"
    by (simp add: delivery_attempt_def hook_env_def Let_def)
  from failed_attempt_last_error[OF present failed] present failed show ?thesis
    by (simp add: hook_env_def str_nat_500)
qed

text \<open>
  C9 as stated bounds the recorded text for a transport-level exception too. An
  exception whose text has 201 characters is recorded in full.
\<close>

theorem exception_text_counterexample:
  "delivery_error (the (deliveries (committed (send_to_external_system 3 demo_payload
       (hook_env (TransportError (replicate 201 (CHR ''x'')))) (demo_world ''hello''))) 10)) =
     Some (replicate 201 (CHR ''x'')) \<and>
   \<not> length (replicate 201 (CHR ''x'')) \<le> 200"
  using send_all_exceptions[of "hook_env (TransportError (replicate 201 (CHR ''x'')))"
      "''http://hook.example/in''" demo_payload "replicate 201 (CHR ''x'')" 3 "demo_world ''hello''"]
  by (simp add: hook_env_def demo_env_def demo_world_def)

section \<open>What a delivery leaves alone\<close>

lemma delivery_only_refl: "delivery_only w w"
  by (simp add: delivery_only_def same_content_def)

lemma delivery_only_trans:
  assumes "delivery_only a b" and "delivery_only b c"
  shows "delivery_only a c"
proof -
  from assms(1) obtain hs1 where h1: "history b = history a @ hs1"
      "list_all (\<lambda>s. same_content s (session a)) hs1"
      and sb: "same_content (session b) (session a)" and fb: "files b = files a" "queue b = queue a"
    unfolding delivery_only_def by blast
  from assms(2) obtain hs2 where h2: "history c = history b @ hs2"
      "list_all (\<lambda>s. same_content s (session b)) hs2"
      and sc: "same_content (session c) (session b)" and fc: "files c = files b" "queue c = queue b"
    unfolding delivery_only_def by blast
  have eq: "same_content s (session b) = same_content s (session a)" for s
    using sb unfolding same_content_def by simp
  have "history c = history a @ (hs1 @ hs2)"
    using h1(1) h2(1) by simp
  moreover have "list_all (\<lambda>s. same_content s (session a)) (hs1 @ hs2)"
    using h1(2) h2(2) by (simp add: eq)
  ultimately have "\<exists>hs. history c = history a @ hs \<and> list_all (\<lambda>s. same_content s (session a)) hs"
    by blast
  moreover have "same_content (session c) (session a)"
    using sc by (simp add: eq)
  ultimately show ?thesis
    unfolding delivery_only_def using fb fc by simp
qed

lemma delivery_only_log: "delivery_only w (log_event m w)"
  by (simp add: delivery_only_def same_content_def log_event_def)

lemma delivery_only_sleep: "delivery_only w (sleep d w)"
  by (simp add: delivery_only_def same_content_def sleep_def)

lemma delivery_only_update: "delivery_only w (commit (update_delivery did f w))"
  by (simp add: delivery_only_def same_content_def world_ops)

lemma delivery_only_step:
  "delivery_only w (log_event m (commit (update_delivery did f w)))"
  by (rule delivery_only_trans[OF delivery_only_update delivery_only_log])

lemma delivery_only_attempt: "delivery_only w (snd (delivery_attempt e url p did attempt w))"
proof -
  define w2 where "w2 = log_event ''Integration delivery attempt''
     (commit (update_delivery did (\<lambda>d. d\<lparr>attempts := attempt + 1\<rparr>) w))"
  have a: "delivery_only w w2"
    unfolding w2_def by (rule delivery_only_step)
  have "\<exists>m f. snd (delivery_attempt e url p did attempt w) = log_event m (commit (update_delivery did f w2))"
    unfolding delivery_attempt_def Let_def w2_def
    by (cases "http_post e url p attempt") auto
  then obtain m f where "snd (delivery_attempt e url p did attempt w) = log_event m (commit (update_delivery did f w2))"
    by blast
  with a show ?thesis
    using delivery_only_trans[OF a delivery_only_step] by simp
qed

lemma delivery_only_wait: "delivery_only w (wait_before_retry attempt w)"
  unfolding wait_before_retry_def
  by (auto intro: delivery_only_trans[OF delivery_only_log] delivery_only_sleep delivery_only_refl)

lemma delivery_only_attempts: "delivery_only w (snd (attempts_from e url p did attempt w))"
proof (induction e url p did attempt w rule: attempts_from.induct)
  case (1 e url p did attempt w)
  show ?case
  proof (cases "attempt < max_attempts")
    case False
    then show ?thesis
      by (subst attempts_from.simps) (simp add: delivery_only_refl)
  next
    case True
    obtain b w' where da: "delivery_attempt e url p did attempt w = (b, w')"
      by (cases "delivery_attempt e url p did attempt w")
    have step: "delivery_only w w'"
      using delivery_only_attempt[of w e url p did attempt] da by simp
    show ?thesis
    proof (cases b)
      case True
      with \<open>attempt < max_attempts\<close> da step show ?thesis
        by (subst attempts_from.simps) simp
    next
      case False
      have "delivery_only (wait_before_retry attempt w')
              (snd (attempts_from e url p did (attempt + 1) (wait_before_retry attempt w')))"
        using "1.IH"[OF \<open>attempt < max_attempts\<close> da[symmetric]] False by simp
      then have "delivery_only w (snd (attempts_from e url p did (attempt + 1) (wait_before_retry attempt w')))"
        using step delivery_only_wait delivery_only_trans by blast
      with False \<open>attempt < max_attempts\<close> da show ?thesis
        by (subst attempts_from.simps) simp
    qed
  qed
qed

lemma delivery_only_send: "delivery_only w (send_to_external_system rid p e w)"
proof (cases "INTEGRATION_URL e = None \<or> INTEGRATION_URL e = Some []")
  case True
  then show ?thesis
    by (auto simp: send_to_external_system_def delivery_only_log)
next
  case False
  then obtain url where url: "INTEGRATION_URL e = Some url" "url \<noteq> []"
    by auto
  define d where "d = \<lparr>delivery_id = next_uuid w, delivery_run_id = rid, delivery_status = DPending,
                             attempts = 0, delivery_error = None\<rparr>"
  define w3 where "w3 = log_event ''Starting integration delivery''
     (commit (upd_session (\<lambda>db. db\<lparr>deliveries := (deliveries db)(next_uuid w \<mapsto> d)\<rparr>) (snd (uuid4 w))))"
  have a: "delivery_only w w3"
    by (simp add: w3_def delivery_only_def same_content_def world_ops)
  obtain b w4 where r: "attempts_from e url p (next_uuid w) 0 w3 = (b, w4)"
    by (cases "attempts_from e url p (next_uuid w) 0 w3")
  have c: "delivery_only w3 w4"
    using delivery_only_attempts[of w3 e url p "next_uuid w" 0] r by simp
  have s: "send_to_external_system rid p e w =
     (if b then w4 else log_event ''Integration delivery failed after all attempts''
                      (commit (update_delivery (next_uuid w) (\<lambda>d. d\<lparr>delivery_status := DFailed\<rparr>) w4)))"
    using url r by (simp add: send_to_external_system_def uuid4_def w3_def d_def)
  show ?thesis
  proof (cases b)
    case True
    with s a c show ?thesis by (auto intro: delivery_only_trans)
  next
    case False
    with s have "delivery_only w4 (send_to_external_system rid p e w)"
      by (auto intro: delivery_only_trans[OF delivery_only_update] delivery_only_log)
    with a c show ?thesis by (blast intro: delivery_only_trans)
  qed
qed


section \<open>The visualisation block\<close>

lemma generate_chart_ok:
  assumes "makedirs_error e = None" and "savefig_error e = None" and "media_insert_error e = None"
  shows "generate_chart t c e w =
     Inr (str_nat (next_uuid w),
          w\<lparr>next_uuid := Suc (next_uuid w),
            log := log w @ [''Generating chart'', ''Chart generated successfully''],
            files := files w @ [path_join (MEDIA_DIR e) (str_nat (next_uuid w) @ ''.png'')],
            session := (session w)\<lparr>media := media (session w) @
              [\<lparr>media_id = next_uuid w, media_conversation_id = c, media_type = ''image/png'',
                storage_path = path_join (MEDIA_DIR e) (str_nat (next_uuid w) @ ''.png'')\<rparr>]\<rparr>\<rparr>)"
  using assms by (simp add: generate_chart_def world_ops Let_def)

lemma generate_chart_early_failure:
  assumes "makedirs_error e \<noteq> None \<or> savefig_error e \<noteq> None"
  shows "\<exists>err w'. generate_chart t c e w = Inl (err, w') \<and> session w' = session w \<and>
           committed w' = committed w \<and> history w' = history w \<and> slept w' = slept w \<and>
           queue w' = queue w \<and> clock w' = clock w \<and> files w' = files w \<and>
           pending_rollback w' = pending_rollback w"
  using assms by (auto simp: generate_chart_def world_ops Let_def split: option.splits)

lemma generate_chart_media_insert_refused:
  assumes "makedirs_error e = None" and "savefig_error e = None" and "media_insert_error e = Some err"
  shows "generate_chart t c e w =
     Inl (err,
          w\<lparr>next_uuid := Suc (next_uuid w),
            log := log w @ [''Generating chart'', ''Chart generated successfully'', ''Failed to generate chart''],
            files := files w @ [path_join (MEDIA_DIR e) (str_nat (next_uuid w) @ ''.png'')],
            session := committed w, pending_rollback := True\<rparr>)"
  using assms by (simp add: generate_chart_def world_ops refuse_flush_def Let_def)

lemma visualization_skipped:
  "\<not> wanted \<Longrightarrow> visualization_step wanted t c e w = (None, w)"
  by (simp add: visualization_step_def)

lemma visualization_early_failure:
  assumes "wanted" and "makedirs_error e \<noteq> None \<or> savefig_error e \<noteq> None"
  shows "fst (visualization_step wanted t c e w) = None \<and>
         session (snd (visualization_step wanted t c e w)) = session w \<and>
         files (snd (visualization_step wanted t c e w)) = files w \<and>
         pending_rollback (snd (visualization_step wanted t c e w)) = pending_rollback w"
  using generate_chart_early_failure[OF assms(2), of t c w] assms(1)
  by (auto simp: visualization_step_def log_event_def)

lemma visualization_done:
  assumes "wanted" and "makedirs_error e = None" and "savefig_error e = None"
    and "media_insert_error e = None" and "image_insert_error e = None"
  shows "fst (visualization_step wanted t c e w) = Some (str_nat (next_uuid w)) \<and>
         session (snd (visualization_step wanted t c e w)) = (session w)\<lparr>
           media := media (session w) @
             [\<lparr>media_id = next_uuid w, media_conversation_id = c, media_type = ''image/png'',
               storage_path = path_join (MEDIA_DIR e) (str_nat (next_uuid w) @ ''.png'')\<rparr>],
           messages := messages (session w) @
             [\<lparr>message_id = Suc (next_uuid w), message_conversation_id = c, sender = Assistant,
               content_json = Image (''/v1/media/'' @ str_nat (next_uuid w)) ''Generated visualization''\<rparr>]\<rparr> \<and>
         files (snd (visualization_step wanted t c e w)) = files w @
           [path_join (MEDIA_DIR e) (str_nat (next_uuid w) @ ''.png'')] \<and>
         pending_rollback (snd (visualization_step wanted t c e w)) = pending_rollback w"
  using assms
  by (simp add: visualization_step_def generate_chart_ok str_nat_nonempty add_message_def world_ops)

lemma visualization_media_refused:
  assumes "wanted" and "makedirs_error e = None" and "savefig_error e = None"
    and "media_insert_error e = Some err"
  shows "fst (visualization_step wanted t c e w) = None \<and>
         session (snd (visualization_step wanted t c e w)) = committed w \<and>
         files (snd (visualization_step wanted t c e w)) =
           files w @ [path_join (MEDIA_DIR e) (str_nat (next_uuid w) @ ''.png'')] \<and>
         pending_rollback (snd (visualization_step wanted t c e w))"
  using assms
  by (simp add: visualization_step_def generate_chart_media_insert_refused log_event_def)

lemma visualization_image_refused:
  assumes "wanted" and "makedirs_error e = None" and "savefig_error e = None"
    and "media_insert_error e = None" and "image_insert_error e = Some err"
  shows "fst (visualization_step wanted t c e w) = Some (str_nat (next_uuid w)) \<and>
         session (snd (visualization_step wanted t c e w)) = committed w \<and>
         files (snd (visualization_step wanted t c e w)) =
           files w @ [path_join (MEDIA_DIR e) (str_nat (next_uuid w) @ ''.png'')] \<and>
         pending_rollback (snd (visualization_step wanted t c e w))"
  using assms
  by (simp add: visualization_step_def generate_chart_ok str_nat_nonempty world_ops refuse_flush_def)

text \<open>The five ways through the block.\<close>

lemma visualization_cases:
  obtains (skipped) "\<not> wanted"
  | (early) "wanted" "makedirs_error e \<noteq> None \<or> savefig_error e \<noteq> None"
  | (media) err where "wanted" "makedirs_error e = None" "savefig_error e = None"
      "media_insert_error e = Some err"
  | (image) err where "wanted" "makedirs_error e = None" "savefig_error e = None"
      "media_insert_error e = None" "image_insert_error e = Some err"
  | (complete) "wanted" "makedirs_error e = None" "savefig_error e = None"
      "media_insert_error e = None" "image_insert_error e = None"
  by (cases "media_insert_error e"; cases "image_insert_error e") auto

lemma visual_frame_step:
  "visual_frame w (snd (visualization_step wanted t c e w))"
proof (cases rule: visualization_cases[where wanted = wanted and e = e])
  case skipped
  then show ?thesis by (simp add: visualization_skipped visual_frame_def)
next
  case early
  from generate_chart_early_failure[OF early(2), of t c w] early(1) show ?thesis
    by (auto simp: visualization_step_def visual_frame_def log_event_def)
next
  case (media err)
  then show ?thesis
    by (simp add: visualization_step_def generate_chart_media_insert_refused visual_frame_def log_event_def)
next
  case (image err)
  then show ?thesis
    by (simp add: visualization_step_def generate_chart_ok str_nat_nonempty visual_frame_def
        world_ops refuse_flush_def)
next
  case complete
  then show ?thesis
    by (simp add: visualization_step_def generate_chart_ok str_nat_nonempty visual_frame_def
        add_message_def world_ops)
qed

lemma visualization_flag:
  "pending_rollback (snd (visualization_step wanted t c e w)) =
     (pending_rollback w \<or> flush_refused e wanted)"
proof (cases rule: visualization_cases[where wanted = wanted and e = e])
  case skipped
  then show ?thesis by (simp add: visualization_skipped flush_refused_def)
next
  case early
  with visualization_early_failure[OF early, of t c w] show ?thesis
    by (auto simp: flush_refused_def)
next
  case (media err)
  with visualization_media_refused[OF media, of t c w] show ?thesis
    by (simp add: flush_refused_def)
next
  case (image err)
  with visualization_image_refused[OF image, of t c w] show ?thesis
    by (simp add: flush_refused_def)
next
  case complete
  with visualization_done[OF complete, of t c w] show ?thesis
    by (simp add: flush_refused_def)
qed

lemma visualization_session:
  assumes "\<not> flush_refused e wanted"
  shows "\<exists>imgs meds. session (snd (visualization_step wanted t c e w)) =
           (session w)\<lparr>media := media (session w) @ meds, messages := messages (session w) @ imgs\<rparr> \<and>
           list_all (\<lambda>m. \<not> is_text (content_json m)) imgs"
proof (cases rule: visualization_cases[where wanted = wanted and e = e])
  case skipped
  then show ?thesis
    by (intro exI[where x = "[]"] conjI) (simp_all add: visualization_skipped)
next
  case early
  with visualization_early_failure[OF early, of t c w] show ?thesis
    by (intro exI[where x = "[]"] conjI) simp_all
next
  case (media err)
  with assms show ?thesis by (simp add: flush_refused_def)
next
  case (image err)
  with assms show ?thesis by (simp add: flush_refused_def)
next
  case complete
  from visualization_done[OF complete, of t c w] show ?thesis
    by (intro exI conjI) (simp, simp)
qed

section \<open>One execution of the pipeline\<close>

lemma run_gemini_world:
  "snd (run_gemini_agent e ctx t w) = w\<lparr>log := log (snd (run_gemini_agent e ctx t w))\<rparr>"
  by (auto simp: run_gemini_agent_def log_event_def split: sum.splits)

lemma run_gemini_text: "fst (run_gemini_agent e ctx t w) = fst (run_gemini_agent e ctx t w')"
  by (auto simp: run_gemini_agent_def split: sum.splits)

lemma reply_text_messages:
  "messages (session w') = messages (session w) \<Longrightarrow> reply_text r t e w' = reply_text r t e w"
  using run_gemini_text[of e "run_context r w" "get_text (content_json t)" w' w]
  by (simp add: reply_text_def run_context_def)

lemma after_reply_fields:
  shows "session (after_reply r t e w) = (session w)\<lparr>messages := messages (session w) @
           [\<lparr>message_id = next_uuid w, message_conversation_id = run_conversation_id r,
             sender = Assistant, content_json = Text (reply_text r t e w)\<rparr>]\<rparr>"
    and "next_uuid (after_reply r t e w) = Suc (next_uuid w)"
    and "files (after_reply r t e w) = files w" and "history (after_reply r t e w) = history w"
    and "committed (after_reply r t e w) = committed w" and "queue (after_reply r t e w) = queue w"
    and "clock (after_reply r t e w) = clock w" and "slept (after_reply r t e w) = slept w"
    and "pending_rollback (after_reply r t e w) = pending_rollback w"
proof -
  define g where "g = snd (run_gemini_agent e (run_context r w) (get_text (content_json t)) w)"
  have gw: "g = w\<lparr>log := log g\<rparr>"
    unfolding g_def by (rule run_gemini_world)
  have g_fields: "session g = session w" "next_uuid g = next_uuid w" "files g = files w"
    "history g = history w" "committed g = committed w" "queue g = queue w" "clock g = clock w"
    "slept g = slept w" "pending_rollback g = pending_rollback w"
    by (subst gw, simp)+
  have ar: "after_reply r t e w = log_event ''Assistant message created''
       (snd (add_message (run_conversation_id r) Assistant (Text (reply_text r t e w)) g))"
    by (simp add: after_reply_def g_def)
  show "session (after_reply r t e w) = (session w)\<lparr>messages := messages (session w) @
           [\<lparr>message_id = next_uuid w, message_conversation_id = run_conversation_id r,
             sender = Assistant, content_json = Text (reply_text r t e w)\<rparr>]\<rparr>"
    and "next_uuid (after_reply r t e w) = Suc (next_uuid w)"
    and "files (after_reply r t e w) = files w" and "history (after_reply r t e w) = history w"
    and "committed (after_reply r t e w) = committed w" and "queue (after_reply r t e w) = queue w"
    and "clock (after_reply r t e w) = clock w" and "slept (after_reply r t e w) = slept w"
    and "pending_rollback (after_reply r t e w) = pending_rollback w"
    by (simp_all add: ar add_message_def world_ops g_fields)
qed

lemma after_visual_frame:
  shows "committed (snd (after_visual r t e w)) = committed w"
    and "history (snd (after_visual r t e w)) = history w"
    and "queue (snd (after_visual r t e w)) = queue w"
    and "pending_rollback (snd (after_visual r t e w)) =
           (pending_rollback w \<or> flush_refused e (generate_visual (get_text (content_json t))))"
  using visual_frame_step[of "after_reply r t e w" "generate_visual (get_text (content_json t))"
      "get_text (content_json t)" "run_conversation_id r" e]
    visualization_flag[of "generate_visual (get_text (content_json t))"
      "get_text (content_json t)" "run_conversation_id r" e "after_reply r t e w"]
  by (simp_all add: after_visual_def visual_frame_def after_reply_fields)

lemma after_visual_session:
  assumes "\<not> flush_refused e (generate_visual (get_text (content_json t)))"
  shows "\<exists>imgs meds. session (snd (after_visual r t e w)) =
           (session w)\<lparr>media := media (session w) @ meds,
             messages := messages (session w) @
               \<lparr>message_id = next_uuid w, message_conversation_id = run_conversation_id r,
                 sender = Assistant, content_json = Text (reply_text r t e w)\<rparr> # imgs\<rparr> \<and>
           list_all (\<lambda>m. \<not> is_text (content_json m)) imgs"
proof -
  from visualization_session[OF assms, of "get_text (content_json t)" "run_conversation_id r"
      "after_reply r t e w"]
  obtain imgs meds where "session (snd (after_visual r t e w)) =
      (session (after_reply r t e w))\<lparr>media := media (session (after_reply r t e w)) @ meds,
         messages := messages (session (after_reply r t e w)) @ imgs\<rparr>"
    "list_all (\<lambda>m. \<not> is_text (content_json m)) imgs"
    unfolding after_visual_def by blast
  then show ?thesis
    by (intro exI[where x = imgs] exI[where x = meds]) (simp add: after_reply_fields)
qed

lemma run_pipeline_unfold:
  assumes "find (\<lambda>m. message_id m = trigger_message_id r) (messages (session w)) = Some t"
  shows "run_pipeline rid r e w =
     (if pending_rollback (snd (after_visual r t e w))
      then Inl (pending_rollback_error, snd (after_visual r t e w))
      else case conversations (session (snd (after_visual r t e w))) (run_conversation_id r) of
             None \<Rightarrow> Inl (attribute_error ''user_id'', snd (after_visual r t e w))
           | Some u \<Rightarrow>
               Inr (log_event ''Agent run completed successfully''
                 (commit (update_run rid
                   (\<lambda>r'. r'\<lparr>status := Succeeded,
                      finished_at := Some (clock (send_to_external_system rid
                         \<lparr>p_user_id = u, p_conversation_id = run_conversation_id r, p_run_id = rid,
                          p_final_text = reply_text r t e w,
                          p_created_at = clock (snd (after_visual r t e w)),
                          p_has_visualization = (fst (after_visual r t e w) \<noteq> None)\<rparr>
                         e (snd (after_visual r t e w))))\<rparr>)
                   (send_to_external_system rid
                         \<lparr>p_user_id = u, p_conversation_id = run_conversation_id r, p_run_id = rid,
                          p_final_text = reply_text r t e w,
                          p_created_at = clock (snd (after_visual r t e w)),
                          p_has_visualization = (fst (after_visual r t e w) \<noteq> None)\<rparr>
                         e (snd (after_visual r t e w)))))))"
  using assms
  by (simp add: run_pipeline_def after_visual_def after_reply_def reply_text_def run_context_def
      Let_def split_beta split: option.splits)

lemma started_fields:
  assumes "runs (session w) rid = Some r"
  shows "session (started_world rid w) = (session w)\<lparr>runs := (runs (session w))(rid \<mapsto>
            r\<lparr>status := Running, started_at := Some (clock w)\<rparr>)\<rparr>"
    and "committed (started_world rid w) = session (started_world rid w)"
    and "history (started_world rid w) = history w @ [session (started_world rid w)]"
    and "next_uuid (started_world rid w) = next_uuid w" and "files (started_world rid w) = files w"
    and "queue (started_world rid w) = queue w"
    and "clock (started_world rid w) = clock w" and "slept (started_world rid w) = slept w"
    and "pending_rollback (started_world rid w) = pending_rollback w"
  using assms by (simp_all add: started_world_def update_run_def world_ops)

lemma execute_unfold:
  assumes "runs (session w) rid = Some r"
  shows "execute_agent_run rid e w =
     (case run_pipeline rid r e (started_world rid w) of
        Inr w3 \<Rightarrow> (Returned, w3)
      | Inl (err, w3) \<Rightarrow>
          if pending_rollback w3
          then (Raised pending_rollback_error,
                update_run rid (\<lambda>r. r\<lparr>status := Failed, finished_at := Some (clock w3),
                                     last_error := Some err\<rparr>) w3)
          else (Raised err, log_event ''Agent run failed''
                  (commit (update_run rid (\<lambda>r. r\<lparr>status := Failed, finished_at := Some (clock w3),
                                     last_error := Some err\<rparr>) w3))))"
  using assms
  by (simp add: execute_agent_run_def started_world_def Let_def update_run_def upd_session_def
      split: sum.splits prod.splits)

lemma execute_not_found:
  "runs (session w) rid = None \<Longrightarrow>
   execute_agent_run rid e w = (Returned, w\<lparr>log := log w @ [''Agent run not found'']\<rparr>)"
  by (simp add: execute_agent_run_def log_event_def)


lemma started_reads:
  assumes "runs (session w) rid = Some r"
  shows "messages (session (started_world rid w)) = messages (session w)"
    and "media (session (started_world rid w)) = media (session w)"
    and "conversations (session (started_world rid w)) = conversations (session w)"
    and "runs (session (started_world rid w)) rid =
           Some (r\<lparr>status := Running, started_at := Some (clock w)\<rparr>)"
    and "reply_text r t e (started_world rid w) = reply_text r t e w"
proof -
  show m: "messages (session (started_world rid w)) = messages (session w)"
    and "media (session (started_world rid w)) = media (session w)"
    and "conversations (session (started_world rid w)) = conversations (session w)"
    and "runs (session (started_world rid w)) rid =
           Some (r\<lparr>status := Running, started_at := Some (clock w)\<rparr>)"
    by (simp_all add: started_fields[OF assms])
  show "reply_text r t e (started_world rid w) = reply_text r t e w"
    by (rule reply_text_messages[OF m])
qed

lemma execute_no_trigger:
  assumes r: "runs (session w) rid = Some r"
    and t: "find (\<lambda>m. message_id m = trigger_message_id r) (messages (session w)) = None"
  shows "execute_agent_run rid e w =
     (if pending_rollback w
      then (Raised pending_rollback_error,
            update_run rid (\<lambda>r. r\<lparr>status := Failed, finished_at := Some (clock w),
                 last_error := Some (attribute_error ''content_json'')\<rparr>) (started_world rid w))
      else (Raised (attribute_error ''content_json''),
            log_event ''Agent run failed''
              (commit (update_run rid (\<lambda>r. r\<lparr>status := Failed, finished_at := Some (clock w),
                 last_error := Some (attribute_error ''content_json'')\<rparr>) (started_world rid w)))))"
proof -
  have "run_pipeline rid r e (started_world rid w) =
      Inl (attribute_error ''content_json'', started_world rid w)"
    using t by (simp add: run_pipeline_def started_reads[OF r])
  then show ?thesis
    by (simp add: execute_unfold[OF r] started_fields[OF r])
qed

lemma execute_refused:
  assumes r: "runs (session w) rid = Some r"
    and t: "find (\<lambda>m. message_id m = trigger_message_id r) (messages (session w)) = Some t"
    and bad: "pending_rollback w \<or> flush_refused e (generate_visual (get_text (content_json t)))"
  shows "execute_agent_run rid e w =
     (Raised pending_rollback_error,
      update_run rid
        (\<lambda>r'. r'\<lparr>status := Failed,
                  finished_at := Some (clock (snd (after_visual r t e (started_world rid w)))),
                  last_error := Some pending_rollback_error\<rparr>)
        (snd (after_visual r t e (started_world rid w))))"
proof -
  have t1: "find (\<lambda>m. message_id m = trigger_message_id r)
      (messages (session (started_world rid w))) = Some t"
    using t by (simp add: started_reads[OF r])
  have flag: "pending_rollback (snd (after_visual r t e (started_world rid w)))"
    using bad by (simp add: after_visual_frame started_fields[OF r])
  show ?thesis
    using flag by (simp add: execute_unfold[OF r] run_pipeline_unfold[OF t1])
qed

lemma after_visual_reads:
  assumes r: "runs (session w) rid = Some r"
    and ok: "\<not> pending_rollback w"
      "\<not> flush_refused e (generate_visual (get_text (content_json t)))"
  shows "\<not> pending_rollback (snd (after_visual r t e (started_world rid w)))"
    and "conversations (session (snd (after_visual r t e (started_world rid w)))) =
           conversations (session w)"
    and "runs (session (snd (after_visual r t e (started_world rid w)))) rid =
           Some (r\<lparr>status := Running, started_at := Some (clock w)\<rparr>)"
    and "\<exists>imgs. messages (session (snd (after_visual r t e (started_world rid w)))) =
           messages (session w) @
             \<lparr>message_id = next_uuid w, message_conversation_id = run_conversation_id r,
               sender = Assistant, content_json = Text (reply_text r t e w)\<rparr> # imgs \<and>
           list_all (\<lambda>m. \<not> is_text (content_json m)) imgs"
proof -
  show "\<not> pending_rollback (snd (after_visual r t e (started_world rid w)))"
    using ok by (simp add: after_visual_frame started_fields[OF r])
  from after_visual_session[OF ok(2), of r "started_world rid w"]
  obtain imgs meds where s: "session (snd (after_visual r t e (started_world rid w))) =
           (session (started_world rid w))\<lparr>media := media (session (started_world rid w)) @ meds,
             messages := messages (session (started_world rid w)) @
               \<lparr>message_id = next_uuid (started_world rid w),
                 message_conversation_id = run_conversation_id r,
                 sender = Assistant,
                 content_json = Text (reply_text r t e (started_world rid w))\<rparr> # imgs\<rparr>"
    and i: "list_all (\<lambda>m. \<not> is_text (content_json m)) imgs"
    by blast
  show "conversations (session (snd (after_visual r t e (started_world rid w)))) =
           conversations (session w)"
    by (simp add: s started_reads[OF r])
  show "runs (session (snd (after_visual r t e (started_world rid w)))) rid =
           Some (r\<lparr>status := Running, started_at := Some (clock w)\<rparr>)"
    by (simp add: s started_reads[OF r])
  have "messages (session (snd (after_visual r t e (started_world rid w)))) =
           messages (session w) @
             \<lparr>message_id = next_uuid w, message_conversation_id = run_conversation_id r,
               sender = Assistant, content_json = Text (reply_text r t e w)\<rparr> # imgs"
    by (simp add: s started_reads[OF r] started_fields[OF r])
  with i show "\<exists>imgs. messages (session (snd (after_visual r t e (started_world rid w)))) =
           messages (session w) @
             \<lparr>message_id = next_uuid w, message_conversation_id = run_conversation_id r,
               sender = Assistant, content_json = Text (reply_text r t e w)\<rparr> # imgs \<and>
           list_all (\<lambda>m. \<not> is_text (content_json m)) imgs"
    by blast
qed

lemma execute_no_conversation:
  assumes r: "runs (session w) rid = Some r"
    and t: "find (\<lambda>m. message_id m = trigger_message_id r) (messages (session w)) = Some t"
    and ok: "\<not> pending_rollback w"
      "\<not> flush_refused e (generate_visual (get_text (content_json t)))"
    and c: "conversations (session w) (run_conversation_id r) = None"
  shows "execute_agent_run rid e w =
     (Raised (attribute_error ''user_id''),
      log_event ''Agent run failed''
        (commit (update_run rid
          (\<lambda>r'. r'\<lparr>status := Failed,
                    finished_at := Some (clock (snd (after_visual r t e (started_world rid w)))),
                    last_error := Some (attribute_error ''user_id'')\<rparr>)
          (snd (after_visual r t e (started_world rid w))))))"
proof -
  have t1: "find (\<lambda>m. message_id m = trigger_message_id r)
      (messages (session (started_world rid w))) = Some t"
    using t by (simp add: started_reads[OF r])
  note av = after_visual_reads[OF r ok]
  show ?thesis
    using av(1) c by (simp add: execute_unfold[OF r] run_pipeline_unfold[OF t1] av(2))
qed

lemma execute_success:
  assumes r: "runs (session w) rid = Some r"
    and t: "find (\<lambda>m. message_id m = trigger_message_id r) (messages (session w)) = Some t"
    and ok: "\<not> pending_rollback w"
      "\<not> flush_refused e (generate_visual (get_text (content_json t)))"
    and c: "conversations (session w) (run_conversation_id r) = Some u"
  shows "\<exists>w4. delivery_only (snd (after_visual r t e (started_world rid w))) w4 \<and>
     execute_agent_run rid e w =
       (Returned, log_event ''Agent run completed successfully''
          (commit (update_run rid
             (\<lambda>r'. r'\<lparr>status := Succeeded, finished_at := Some (clock w4)\<rparr>) w4)))"
proof -
  have t1: "find (\<lambda>m. message_id m = trigger_message_id r)
      (messages (session (started_world rid w))) = Some t"
    using t by (simp add: started_reads[OF r])
  note av = after_visual_reads[OF r ok]
  define w4 where "w4 = send_to_external_system rid
      \<lparr>p_user_id = u, p_conversation_id = run_conversation_id r, p_run_id = rid,
       p_final_text = reply_text r t e (started_world rid w),
       p_created_at = clock (snd (after_visual r t e (started_world rid w))),
       p_has_visualization = (fst (after_visual r t e (started_world rid w)) \<noteq> None)\<rparr>
      e (snd (after_visual r t e (started_world rid w)))"
  have d: "delivery_only (snd (after_visual r t e (started_world rid w))) w4"
    unfolding w4_def by (rule delivery_only_send)
  have "execute_agent_run rid e w =
       (Returned, log_event ''Agent run completed successfully''
          (commit (update_run rid
             (\<lambda>r'. r'\<lparr>status := Succeeded, finished_at := Some (clock w4)\<rparr>) w4)))"
    using av(1) c unfolding w4_def
    by (simp add: execute_unfold[OF r] run_pipeline_unfold[OF t1] av(2))
  with d show ?thesis by blast
qed


section \<open>Outcomes of an execution\<close>

lemma execute_result:
  "(fst (execute_agent_run rid e w),
    map_option status (runs (committed (snd (execute_agent_run rid e w))) rid)) =
   pipeline_result e w rid"
proof (cases "runs (session w) rid")
  case None
  then show ?thesis
    by (simp add: execute_not_found pipeline_result_def)
next
  case (Some r)
  note r = Some
  show ?thesis
  proof (cases "find (\<lambda>m. message_id m = trigger_message_id r) (messages (session w))")
    case None
    show ?thesis
      by (simp add: execute_no_trigger[OF r None] pipeline_result_def r None update_run_def
          world_ops started_fields[OF r])
  next
    case (Some t)
    note t = Some
    show ?thesis
    proof (cases "pending_rollback w \<or> flush_refused e (generate_visual (get_text (content_json t)))")
      case True
      have "committed (snd (after_visual r t e (started_world rid w))) = session (started_world rid w)"
        by (simp add: after_visual_frame started_fields[OF r])
      then show ?thesis
        using True
        by (simp add: execute_refused[OF r t True] pipeline_result_def r t update_run_def
            upd_session_def started_fields[OF r])
    next
      case False
      then have ok: "\<not> pending_rollback w"
        "\<not> flush_refused e (generate_visual (get_text (content_json t)))"
        by simp_all
      note av = after_visual_reads[OF r ok]
      show ?thesis
      proof (cases "conversations (session w) (run_conversation_id r)")
        case None
        show ?thesis
          using ok
          by (simp add: execute_no_conversation[OF r t ok None] pipeline_result_def r t None
              update_run_def world_ops av(3))
      next
        case (Some u)
        from execute_success[OF r t ok Some]
        obtain w4 where d: "delivery_only (snd (after_visual r t e (started_world rid w))) w4"
          and x: "execute_agent_run rid e w =
             (Returned, log_event ''Agent run completed successfully''
                (commit (update_run rid
                   (\<lambda>r'. r'\<lparr>status := Succeeded, finished_at := Some (clock w4)\<rparr>) w4)))"
          by blast
        from d have "runs (session w4) = runs (session (snd (after_visual r t e (started_world rid w))))"
          by (simp add: delivery_only_def same_content_def)
        then have "runs (session w4) rid = Some (r\<lparr>status := Running, started_at := Some (clock w)\<rparr>)"
          by (simp add: av(3))
        then show ?thesis
          using ok
          by (simp add: x pipeline_result_def r t Some update_run_def world_ops)
      qed
    qed
  qed
qed

lemma flush_refused_integration:
  "flush_refused (e\<lparr>INTEGRATION_URL := url, http_post := post\<rparr>) wanted = flush_refused e wanted"
  by (simp add: flush_refused_def)

lemma pipeline_result_integration:
  "pipeline_result (e\<lparr>INTEGRATION_URL := url, http_post := post\<rparr>) w rid = pipeline_result e w rid"
  unfolding pipeline_result_def flush_refused_integration by (rule refl)








lemma no_insert_refused:
  "media_insert_error e = None \<Longrightarrow> image_insert_error e = None \<Longrightarrow> \<not> flush_refused e wanted"
  by (simp add: flush_refused_def)

lemma execute_success_content:
  assumes r: "runs (session w) rid = Some r"
    and t: "find (\<lambda>m. message_id m = trigger_message_id r) (messages (session w)) = Some t"
    and ok: "\<not> pending_rollback w"
      "\<not> flush_refused e (generate_visual (get_text (content_json t)))"
    and c: "conversations (session w) (run_conversation_id r) = Some u"
  shows "fst (execute_agent_run rid e w) = Returned \<and>
     (\<exists>rf. runs (committed (snd (execute_agent_run rid e w))) rid = Some rf \<and>
           status rf = Succeeded \<and> last_error rf = last_error r) \<and>
     (\<exists>imgs. messages (committed (snd (execute_agent_run rid e w))) =
        messages (session w) @
          \<lparr>message_id = next_uuid w, message_conversation_id = run_conversation_id r,
            sender = Assistant, content_json = Text (reply_text r t e w)\<rparr> # imgs \<and>
        list_all (\<lambda>m. \<not> is_text (content_json m)) imgs)"
proof -
  note av = after_visual_reads[OF r ok]
  from execute_success[OF r t ok c]
  obtain w4 where d: "delivery_only (snd (after_visual r t e (started_world rid w))) w4"
    and x: "execute_agent_run rid e w =
       (Returned, log_event ''Agent run completed successfully''
          (commit (update_run rid
             (\<lambda>r'. r'\<lparr>status := Succeeded, finished_at := Some (clock w4)\<rparr>) w4)))"
    by blast
  from d have sc: "runs (session w4) = runs (session (snd (after_visual r t e (started_world rid w))))"
    "messages (session w4) = messages (session (snd (after_visual r t e (started_world rid w))))"
    by (simp_all add: delivery_only_def same_content_def)
  have r4: "runs (session w4) rid = Some (r\<lparr>status := Running, started_at := Some (clock w)\<rparr>)"
    by (simp add: sc(1) av(3))
  have "fst (execute_agent_run rid e w) = Returned"
    by (simp add: x)
  moreover have "\<exists>rf. runs (committed (snd (execute_agent_run rid e w))) rid = Some rf \<and>
           status rf = Succeeded \<and> last_error rf = last_error r"
    by (simp add: x update_run_def world_ops r4)
  moreover have "messages (committed (snd (execute_agent_run rid e w))) =
      messages (session (snd (after_visual r t e (started_world rid w))))"
    by (simp add: x update_run_def world_ops sc(2))
  ultimately show ?thesis
    using av(4) by simp
qed

lemma execute_media_refused:
  assumes r: "runs (session w) rid = Some r"
    and t: "find (\<lambda>m. message_id m = trigger_message_id r) (messages (session w)) = Some t"
    and g: "generate_visual (get_text (content_json t))"
    and bad: "makedirs_error e = None" "savefig_error e = None" "media_insert_error e = Some err"
  shows "fst (execute_agent_run rid e w) = Raised pending_rollback_error \<and>
     committed (snd (execute_agent_run rid e w)) =
       (session w)\<lparr>runs := (runs (session w))(rid \<mapsto>
            r\<lparr>status := Running, started_at := Some (clock w)\<rparr>)\<rparr> \<and>
     files (snd (execute_agent_run rid e w)) =
       files w @ [path_join (MEDIA_DIR e) (str_nat (Suc (next_uuid w)) @ ''.png'')]"
proof -
  have fr: "pending_rollback w \<or> flush_refused e (generate_visual (get_text (content_json t)))"
    using g bad by (simp add: flush_refused_def)
  have f: "files (snd (after_visual r t e (started_world rid w))) =
      files w @ [path_join (MEDIA_DIR e) (str_nat (Suc (next_uuid w)) @ ''.png'')]"
    using visualization_media_refused[OF g bad, of "get_text (content_json t)"
        "run_conversation_id r" "after_reply r t e (started_world rid w)"]
    by (simp add: after_visual_def after_reply_fields started_fields[OF r])
  show ?thesis
    by (simp add: execute_refused[OF r t fr] update_run_def upd_session_def after_visual_frame
        started_fields[OF r] f)
qed

lemma execute_image_refused:
  assumes r: "runs (session w) rid = Some r"
    and t: "find (\<lambda>m. message_id m = trigger_message_id r) (messages (session w)) = Some t"
    and g: "generate_visual (get_text (content_json t))"
    and bad: "makedirs_error e = None" "savefig_error e = None" "media_insert_error e = None"
      "image_insert_error e = Some err"
  shows "fst (execute_agent_run rid e w) = Raised pending_rollback_error \<and>
     committed (snd (execute_agent_run rid e w)) =
       (session w)\<lparr>runs := (runs (session w))(rid \<mapsto>
            r\<lparr>status := Running, started_at := Some (clock w)\<rparr>)\<rparr> \<and>
     files (snd (execute_agent_run rid e w)) =
       files w @ [path_join (MEDIA_DIR e) (str_nat (Suc (next_uuid w)) @ ''.png'')]"
proof -
  have fr: "pending_rollback w \<or> flush_refused e (generate_visual (get_text (content_json t)))"
    using g bad by (simp add: flush_refused_def)
  have f: "files (snd (after_visual r t e (started_world rid w))) =
      files w @ [path_join (MEDIA_DIR e) (str_nat (Suc (next_uuid w)) @ ''.png'')]"
    using visualization_image_refused[OF g bad, of "get_text (content_json t)"
        "run_conversation_id r" "after_reply r t e (started_world rid w)"]
    by (simp add: after_visual_def after_reply_fields started_fields[OF r])
  show ?thesis
    by (simp add: execute_refused[OF r t fr] update_run_def upd_session_def after_visual_frame
        started_fields[OF r] f)
qed

lemma reply_text_echo:
  "GEMINI_API_KEY e = None \<or> GEMINI_API_KEY e = Some [] \<Longrightarrow>
   reply_text r t e w = ''Echo: '' @ get_text (content_json t)"
  by (auto simp: reply_text_def run_gemini_agent_def)

lemma gemini_fallback:
  "GEMINI_API_KEY e = Some key \<Longrightarrow> key \<noteq> [] \<Longrightarrow>
   send_message e (if 1 < length ctx then butlast ctx else []) x = Inl err \<Longrightarrow>
   fst (run_gemini_agent e ctx x w) = ''I received your message: '' @ x"
  by (simp add: run_gemini_agent_def)


lemma post_message_result:
  "post_message cid x user fault w =
     (if conversations (committed w) cid \<noteq> Some user then (NotFound, open_session w)
      else case fault of
        Some (FlushRaises err) \<Rightarrow> (ServerError err, open_session w)
      | Some (CommitRaises err) \<Rightarrow>
          (ServerError err, (open_session w)\<lparr>next_uuid := Suc (Suc (next_uuid w))\<rparr>)
      | Some (EnqueueRaises err) \<Rightarrow>
         (ServerError err,
          w\<lparr>session := (committed w)\<lparr>
               messages := messages (committed w) @
                 [\<lparr>message_id = next_uuid w, message_conversation_id = cid, sender = User,
                   content_json = Text x\<rparr>],
               runs := (runs (committed w))(Suc (next_uuid w) \<mapsto>
                 \<lparr>run_id = Suc (next_uuid w), run_conversation_id = cid,
                  trigger_message_id = next_uuid w, status = Queued,
                  started_at = None, finished_at = None, last_error = None\<rparr>)\<rparr>,
             committed := (committed w)\<lparr>
               messages := messages (committed w) @
                 [\<lparr>message_id = next_uuid w, message_conversation_id = cid, sender = User,
                   content_json = Text x\<rparr>],
               runs := (runs (committed w))(Suc (next_uuid w) \<mapsto>
                 \<lparr>run_id = Suc (next_uuid w), run_conversation_id = cid,
                  trigger_message_id = next_uuid w, status = Queued,
                  started_at = None, finished_at = None, last_error = None\<rparr>)\<rparr>,
             history := history w @ [(committed w)\<lparr>
               messages := messages (committed w) @
                 [\<lparr>message_id = next_uuid w, message_conversation_id = cid, sender = User,
                   content_json = Text x\<rparr>],
               runs := (runs (committed w))(Suc (next_uuid w) \<mapsto>
                 \<lparr>run_id = Suc (next_uuid w), run_conversation_id = cid,
                  trigger_message_id = next_uuid w, status = Queued,
                  started_at = None, finished_at = None, last_error = None\<rparr>)\<rparr>],
             next_uuid := Suc (Suc (next_uuid w)),
             log := log w @ [''User message posted, agent run queued''],
             pending_rollback := False\<rparr>)
      | None \<Rightarrow>
         (Accepted (next_uuid w) (Suc (next_uuid w)) Queued,
          w\<lparr>session := (committed w)\<lparr>
               messages := messages (committed w) @
                 [\<lparr>message_id = next_uuid w, message_conversation_id = cid, sender = User,
                   content_json = Text x\<rparr>],
               runs := (runs (committed w))(Suc (next_uuid w) \<mapsto>
                 \<lparr>run_id = Suc (next_uuid w), run_conversation_id = cid,
                  trigger_message_id = next_uuid w, status = Queued,
                  started_at = None, finished_at = None, last_error = None\<rparr>)\<rparr>,
             committed := (committed w)\<lparr>
               messages := messages (committed w) @
                 [\<lparr>message_id = next_uuid w, message_conversation_id = cid, sender = User,
                   content_json = Text x\<rparr>],
               runs := (runs (committed w))(Suc (next_uuid w) \<mapsto>
                 \<lparr>run_id = Suc (next_uuid w), run_conversation_id = cid,
                  trigger_message_id = next_uuid w, status = Queued,
                  started_at = None, finished_at = None, last_error = None\<rparr>)\<rparr>,
             history := history w @ [(committed w)\<lparr>
               messages := messages (committed w) @
                 [\<lparr>message_id = next_uuid w, message_conversation_id = cid, sender = User,
                   content_json = Text x\<rparr>],
               runs := (runs (committed w))(Suc (next_uuid w) \<mapsto>
                 \<lparr>run_id = Suc (next_uuid w), run_conversation_id = cid,
                  trigger_message_id = next_uuid w, status = Queued,
                  started_at = None, finished_at = None, last_error = None\<rparr>)\<rparr>],
             next_uuid := Suc (Suc (next_uuid w)),
             log := log w @ [''User message posted, agent run queued'', ''Agent run job enqueued''],
             queue := queue w @ [Suc (next_uuid w)],
             pending_rollback := False\<rparr>))"
  by (simp add: post_message_def add_message_def enqueue_agent_run_def open_session_def
      close_session_def world_ops Let_def split: option.splits request_fault.splits)

section \<open>Facts about the concrete world\<close>


lemma visual_Plot: "generate_visual ''Plot: sales''"
  by code_simp

lemma visual_CHART: "generate_visual ''a CHART: of x''"
  by code_simp

lemma str_nat_11: "str_nat 11 = ''11''"
  by code_simp

lemma demo_path: "path_join ''./data/media'' ''11.png'' = ''./data/media/11.png''"
  by (simp add: path_join_def)

lemmas demo_defs = demo_world_def demo_db_def demo_run_def demo_env_def

lemma demo_facts:
  "runs (session (demo_world x)) 3 = Some demo_run"
  "find (\<lambda>m. message_id m = trigger_message_id demo_run) (messages (session (demo_world x))) =
     Some \<lparr>message_id = 2, message_conversation_id = 1, sender = User, content_json = Text x\<rparr>"
  by (simp_all add: demo_defs)

lemma demo_conversation:
  "conversations (session (demo_world x)) (run_conversation_id demo_run) = Some 7"
  by (simp add: demo_defs)

lemma demo_active: "\<not> pending_rollback (demo_world x)"
  by (simp add: demo_defs)



section \<open>Properties of the run pipeline\<close>




text \<open>
  C3. An all-or-nothing attempt is what the source sets out to do (the block is
  wrapped in a \<open>try\<close> that logs and goes on), and it misses it. Run 3 with the trigger text
  \<open>Plot: sales\<close>: the picture is saved, then the insert of its Media row is refused.
  The handler swallows the exception, but the file \<open>./data/media/11.png\<close> stays on
  disk, and the refused flush has rolled the transaction back: the next use of the
  session raises, the handler's own commit raises again, the function raises, the run
  stays committed as running, and the assistant's reply is not committed.
\<close>

theorem refused_media_insert_stalls_run:
  "generate_visual ''Plot: sales'' \<and>
   fst (execute_agent_run 3 (demo_env\<lparr>media_insert_error := Some ''insert refused''\<rparr>)
          (demo_world ''Plot: sales'')) = Raised pending_rollback_error \<and>
   map_option status (runs (committed (snd (execute_agent_run 3
          (demo_env\<lparr>media_insert_error := Some ''insert refused''\<rparr>)
          (demo_world ''Plot: sales'')))) 3) = Some Running \<and>
   messages (committed (snd (execute_agent_run 3
          (demo_env\<lparr>media_insert_error := Some ''insert refused''\<rparr>)
          (demo_world ''Plot: sales'')))) =
     [\<lparr>message_id = 2, message_conversation_id = 1, sender = User,
       content_json = Text ''Plot: sales''\<rparr>] \<and>
   media (committed (snd (execute_agent_run 3
          (demo_env\<lparr>media_insert_error := Some ''insert refused''\<rparr>)
          (demo_world ''Plot: sales'')))) = [] \<and>
   files (demo_world ''Plot: sales'') = [] \<and>
   files (snd (execute_agent_run 3 (demo_env\<lparr>media_insert_error := Some ''insert refused''\<rparr>)
          (demo_world ''Plot: sales''))) = [''./data/media/11.png'']"
proof -
  let ?e = "demo_env\<lparr>media_insert_error := Some ''insert refused''\<rparr>"
  have g: "generate_visual (get_text (content_json
      \<lparr>message_id = 2, message_conversation_id = 1, sender = User,
       content_json = Text ''Plot: sales''\<rparr>))"
    by (simp add: visual_Plot)
  have bad: "makedirs_error ?e = None" "savefig_error ?e = None"
    "media_insert_error ?e = Some ''insert refused''"
    by (simp_all add: demo_env_def)
  have fields: "messages (session (demo_world ''Plot: sales'')) =
      [\<lparr>message_id = 2, message_conversation_id = 1, sender = User,
        content_json = Text ''Plot: sales''\<rparr>]"
    "media (session (demo_world ''Plot: sales'')) = []"
    "files (demo_world ''Plot: sales'') = []"
    "next_uuid (demo_world ''Plot: sales'') = 10"
    "MEDIA_DIR ?e = ''./data/media''"
    by (simp_all add: demo_defs)
  have eleven: "Suc 10 = 11"
    by simp
  from execute_media_refused[OF demo_facts g bad]
  show ?thesis
    by (simp add: fields eleven str_nat_11 demo_path visual_Plot)
qed

text \<open>
  C4. The integration settings and the answers of the endpoint have no bearing on how
  an execution ends or on the status it leaves committed: replacing them by any
  others gives the same outcome and the same status. And a run whose reply is
  produced and kept (the run, its trigger message and its conversation are found, the
  session is usable and the database refuses no insert of the visualisation) returns
  and is committed as succeeded with \<open>last_error\<close> untouched, whatever the endpoint is
  set to and whatever each delivery attempt answers or raises.
\<close>

theorem delivery_outcome_never_fails_run:
  "fst (execute_agent_run rid (e\<lparr>INTEGRATION_URL := url, http_post := post\<rparr>) w) =
     fst (execute_agent_run rid e w) \<and>
   map_option status (runs (committed (snd (execute_agent_run rid
       (e\<lparr>INTEGRATION_URL := url, http_post := post\<rparr>) w))) rid) =
     map_option status (runs (committed (snd (execute_agent_run rid e w))) rid) \<and>
   (runs (session w) rid = Some r \<and>
    find (\<lambda>m. message_id m = trigger_message_id r) (messages (session w)) = Some t \<and>
    conversations (session w) (run_conversation_id r) = Some u \<and>
    \<not> pending_rollback w \<and> media_insert_error e = None \<and> image_insert_error e = None \<longrightarrow>
      fst (execute_agent_run rid (e\<lparr>INTEGRATION_URL := url, http_post := post\<rparr>) w) = Returned \<and>
      (\<exists>rf. runs (committed (snd (execute_agent_run rid
                 (e\<lparr>INTEGRATION_URL := url, http_post := post\<rparr>) w))) rid = Some rf \<and>
            status rf = Succeeded \<and> last_error rf = last_error r))"
proof -
  let ?e = "e\<lparr>INTEGRATION_URL := url, http_post := post\<rparr>"
  have "(fst (execute_agent_run rid ?e w),
         map_option status (runs (committed (snd (execute_agent_run rid ?e w))) rid)) =
        (fst (execute_agent_run rid e w),
         map_option status (runs (committed (snd (execute_agent_run rid e w))) rid))"
    by (simp only: execute_result pipeline_result_integration)
  then have same: "fst (execute_agent_run rid ?e w) = fst (execute_agent_run rid e w)"
    "map_option status (runs (committed (snd (execute_agent_run rid ?e w))) rid) =
     map_option status (runs (committed (snd (execute_agent_run rid e w))) rid)"
    by simp_all
  have kept: "fst (execute_agent_run rid ?e w) = Returned \<and>
      (\<exists>rf. runs (committed (snd (execute_agent_run rid ?e w))) rid = Some rf \<and>
            status rf = Succeeded \<and> last_error rf = last_error r)"
    if r: "runs (session w) rid = Some r"
      and t: "find (\<lambda>m. message_id m = trigger_message_id r) (messages (session w)) = Some t"
      and c: "conversations (session w) (run_conversation_id r) = Some u"
      and a: "\<not> pending_rollback w"
      and m: "media_insert_error e = None" "image_insert_error e = None"
  proof -
    have nr: "\<not> flush_refused ?e (generate_visual (get_text (content_json t)))"
      using m by (simp add: flush_refused_def)
    from execute_success_content[OF r t a nr c] show ?thesis
      by blast
  qed
  from same kept show ?thesis
    by blast
qed

theorem delivery_outcome_never_fails_run_witness:
  "runs (session (demo_world ''hello'')) 3 = Some demo_run \<and>
   \<not> pending_rollback (demo_world ''hello'') \<and>
   media_insert_error demo_env = None \<and> image_insert_error demo_env = None \<and>
   fst (execute_agent_run 3 (hook_env (Response 500 ''down'')) (demo_world ''hello'')) = Returned \<and>
   (\<exists>rf. runs (committed (snd (execute_agent_run 3 (hook_env (Response 500 ''down''))
              (demo_world ''hello'')))) 3 = Some rf \<and> status rf = Succeeded)"
proof -
  have m: "media_insert_error demo_env = None" "image_insert_error demo_env = None"
    by (simp_all add: demo_env_def)
  from delivery_outcome_never_fails_run[where e = demo_env and w = "demo_world ''hello''"
      and rid = 3 and r = demo_run and u = 7
      and t = "\<lparr>message_id = 2, message_conversation_id = 1, sender = User,
                content_json = Text ''hello''\<rparr>"
      and url = "Some ''http://hook.example/in''"
      and post = "\<lambda>url p attempt. Response 500 ''down''"]
    demo_facts[of "''hello''"] demo_conversation[of "''hello''"] demo_active[of "''hello''"] m
  show ?thesis
    by (auto simp: hook_env_def)
qed



text \<open>
  C6, as the code has it. A request for a conversation that does not exist or is not
  the user's creates nothing. For the user's own conversation: if nothing raises, the
  request is accepted, the user's message and the queued run that points to it are
  committed together, in the one committed state the request adds, and the run is
  enqueued; if the flush or the commit is refused, the request fails and nothing is
  created; if the enqueue raises, which happens after the commit, the request fails
  while the message and the run stay committed together and nothing is enqueued. In
  every case the committed state holds both rows or neither.
\<close>

theorem post_message_outcomes:
  "(conversations (committed w) cid \<noteq> Some user \<longrightarrow>
      fst (post_message cid x user fault w) = NotFound \<and>
      nothing_created w (snd (post_message cid x user fault w)) \<and>
      queue (snd (post_message cid x user fault w)) = queue w) \<and>
   (conversations (committed w) cid = Some user \<longrightarrow>
      (case fault of
         None \<Rightarrow>
           fst (post_message cid x user fault w) =
             Accepted (next_uuid w) (Suc (next_uuid w)) Queued \<and>
           created_together cid x w (snd (post_message cid x user fault w)) \<and>
           queue (snd (post_message cid x user fault w)) = queue w @ [Suc (next_uuid w)]
       | Some (FlushRaises err) \<Rightarrow>
           fst (post_message cid x user fault w) = ServerError err \<and>
           nothing_created w (snd (post_message cid x user fault w)) \<and>
           queue (snd (post_message cid x user fault w)) = queue w
       | Some (CommitRaises err) \<Rightarrow>
           fst (post_message cid x user fault w) = ServerError err \<and>
           nothing_created w (snd (post_message cid x user fault w)) \<and>
           queue (snd (post_message cid x user fault w)) = queue w
       | Some (EnqueueRaises err) \<Rightarrow>
           fst (post_message cid x user fault w) = ServerError err \<and>
           created_together cid x w (snd (post_message cid x user fault w)) \<and>
           queue (snd (post_message cid x user fault w)) = queue w))"
  by (simp add: post_message_result open_session_def created_together_def nothing_created_def
      split: option.splits request_fault.splits)

theorem post_message_outcomes_witness:
  "conversations (committed (demo_world ''hello'')) 1 = Some 7 \<and>
   fst (post_message 1 ''and again'' 7 None (demo_world ''hello'')) = Accepted 10 11 Queued \<and>
   messages (committed (snd (post_message 1 ''and again'' 7 None (demo_world ''hello'')))) =
     [\<lparr>message_id = 2, message_conversation_id = 1, sender = User, content_json = Text ''hello''\<rparr>,
      \<lparr>message_id = 10, message_conversation_id = 1, sender = User,
       content_json = Text ''and again''\<rparr>] \<and>
   runs (committed (snd (post_message 1 ''and again'' 7 None (demo_world ''hello'')))) 11 =
     Some \<lparr>run_id = 11, run_conversation_id = 1, trigger_message_id = 10, status = Queued,
           started_at = None, finished_at = None, last_error = None\<rparr> \<and>
   queue (snd (post_message 1 ''and again'' 7 None (demo_world ''hello''))) = [3, 11]"
proof -
  have c: "conversations (committed (demo_world ''hello'')) 1 = Some 7"
    and f: "next_uuid (demo_world ''hello'') = 10" "queue (demo_world ''hello'') = [3]"
      "messages (committed (demo_world ''hello'')) =
        [\<lparr>message_id = 2, message_conversation_id = 1, sender = User, content_json = Text ''hello''\<rparr>]"
    by (simp_all add: demo_defs)
  have eleven: "Suc 10 = 11"
    by simp
  from post_message_outcomes[where cid = 1 and x = "''and again''" and user = 7 and fault = None
      and w = "demo_world ''hello''"] c
  show ?thesis
    by (simp add: created_together_def f eleven)
qed

text \<open>
  C6 as stated says that if the operation fails neither record is created. With Redis
  unreachable the enqueue raises after the commit: the request fails, and the message
  and its run are committed all the same, the run queued and never enqueued.
\<close>

theorem enqueue_failure_counterexample:
  "conversations (committed (demo_world ''hello'')) 1 = Some 7 \<and>
   fst (post_message 1 ''and again'' 7 (Some (EnqueueRaises ''redis down'')) (demo_world ''hello'')) =
     ServerError ''redis down'' \<and>
   messages (committed (snd (post_message 1 ''and again'' 7 (Some (EnqueueRaises ''redis down''))
       (demo_world ''hello'')))) =
     [\<lparr>message_id = 2, message_conversation_id = 1, sender = User, content_json = Text ''hello''\<rparr>,
      \<lparr>message_id = 10, message_conversation_id = 1, sender = User,
       content_json = Text ''and again''\<rparr>] \<and>
   runs (committed (snd (post_message 1 ''and again'' 7 (Some (EnqueueRaises ''redis down''))
       (demo_world ''hello'')))) 11 =
     Some \<lparr>run_id = 11, run_conversation_id = 1, trigger_message_id = 10, status = Queued,
           started_at = None, finished_at = None, last_error = None\<rparr> \<and>
   queue (snd (post_message 1 ''and again'' 7 (Some (EnqueueRaises ''redis down''))
       (demo_world ''hello''))) = [3]"
  by (simp add: post_message_result demo_defs)

text \<open>
  C8. With no generation credential set (absent or empty), a run that is found with
  its trigger message and conversation, on a usable session and with no insert of the
  visualisation refused by the database, returns, is committed as succeeded, and
  commits exactly one assistant Text message: its body is \<open>Echo: \<close> followed by the
  trigger's text. Whatever else the run appends after it is not a Text message.
\<close>

theorem unconfigured_generation_echoes:
  assumes "GEMINI_API_KEY e = None \<or> GEMINI_API_KEY e = Some []"
    and "runs (session w) rid = Some r"
    and "find (\<lambda>m. message_id m = trigger_message_id r) (messages (session w)) = Some t"
    and "conversations (session w) (run_conversation_id r) = Some u"
    and "\<not> pending_rollback w"
    and "media_insert_error e = None" and "image_insert_error e = None"
  shows "fst (execute_agent_run rid e w) = Returned \<and>
         (\<exists>rf. runs (committed (snd (execute_agent_run rid e w))) rid = Some rf \<and>
               status rf = Succeeded) \<and>
         (\<exists>imgs. messages (committed (snd (execute_agent_run rid e w))) =
            messages (session w) @
              \<lparr>message_id = next_uuid w, message_conversation_id = run_conversation_id r,
                sender = Assistant,
                content_json = Text (''Echo: '' @ get_text (content_json t))\<rparr> # imgs \<and>
            list_all (\<lambda>m. \<not> is_text (content_json m)) imgs)"
proof -
  have nr: "\<not> flush_refused e (generate_visual (get_text (content_json t)))"
    using assms(6,7) by (rule no_insert_refused)
  from execute_success_content[OF assms(2,3,5) nr assms(4)] reply_text_echo[OF assms(1), of r t w]
  show ?thesis
    by auto
qed

theorem unconfigured_generation_echoes_witness:
  "GEMINI_API_KEY demo_env = None \<and> \<not> pending_rollback (demo_world ''hello'') \<and>
   media_insert_error demo_env = None \<and> image_insert_error demo_env = None \<and>
   fst (execute_agent_run 3 demo_env (demo_world ''hello'')) = Returned \<and>
   (\<exists>rf. runs (committed (snd (execute_agent_run 3 demo_env (demo_world ''hello'')))) 3 = Some rf \<and>
         status rf = Succeeded) \<and>
   (\<exists>imgs. messages (committed (snd (execute_agent_run 3 demo_env (demo_world ''hello'')))) =
      [\<lparr>message_id = 2, message_conversation_id = 1, sender = User, content_json = Text ''hello''\<rparr>,
       \<lparr>message_id = 10, message_conversation_id = 1, sender = Assistant,
        content_json = Text ''Echo: hello''\<rparr>] @ imgs \<and>
      list_all (\<lambda>m. \<not> is_text (content_json m)) imgs)"
proof -
  have k: "GEMINI_API_KEY demo_env = None \<or> GEMINI_API_KEY demo_env = Some []"
    and m: "media_insert_error demo_env = None" "image_insert_error demo_env = None"
    by (simp_all add: demo_env_def)
  from unconfigured_generation_echoes[OF k demo_facts[of "''hello''"] demo_conversation demo_active m]
  show ?thesis
    by (simp add: demo_defs)
qed

text \<open>
  C10. With a generation credential set, whenever the capability call raises, whatever
  the exception, \<open>_run_gemini_agent\<close> returns \<open>I received your message: \<close> followed by
  the input instead of raising. So for a run that is found with its trigger message and
  conversation, on a usable session and with no insert of the visualisation refused,
  a capability that raises on the run's call does not fail the run: it returns and is
  committed as succeeded, with that text as the assistant's reply.
\<close>

theorem capability_failure_falls_back:
  assumes "GEMINI_API_KEY e = Some key" and "key \<noteq> []"
  shows "(send_message e (if 1 < length ctx then butlast ctx else []) user_text = Inl err \<longrightarrow>
            fst (run_gemini_agent e ctx user_text w0) = ''I received your message: '' @ user_text) \<and>
         (runs (session w) rid = Some r \<and>
          find (\<lambda>m. message_id m = trigger_message_id r) (messages (session w)) = Some t \<and>
          conversations (session w) (run_conversation_id r) = Some u \<and>
          \<not> pending_rollback w \<and> media_insert_error e = None \<and> image_insert_error e = None \<and>
          send_message e (if 1 < length (run_context r w) then butlast (run_context r w) else [])
            (get_text (content_json t)) = Inl err' \<longrightarrow>
            fst (execute_agent_run rid e w) = Returned \<and>
            (\<exists>rf. runs (committed (snd (execute_agent_run rid e w))) rid = Some rf \<and>
                  status rf = Succeeded \<and> last_error rf = last_error r) \<and>
            (\<exists>imgs. messages (committed (snd (execute_agent_run rid e w))) =
               messages (session w) @
                 \<lparr>message_id = next_uuid w, message_conversation_id = run_conversation_id r,
                   sender = Assistant,
                   content_json = Text (''I received your message: '' @ get_text (content_json t))\<rparr>
                 # imgs))"
proof -
  have one: "fst (run_gemini_agent e ctx user_text w0) = ''I received your message: '' @ user_text"
    if "send_message e (if 1 < length ctx then butlast ctx else []) user_text = Inl err"
    using assms that by (rule gemini_fallback)
  have two: "fst (execute_agent_run rid e w) = Returned \<and>
            (\<exists>rf. runs (committed (snd (execute_agent_run rid e w))) rid = Some rf \<and>
                  status rf = Succeeded \<and> last_error rf = last_error r) \<and>
            (\<exists>imgs. messages (committed (snd (execute_agent_run rid e w))) =
               messages (session w) @
                 \<lparr>message_id = next_uuid w, message_conversation_id = run_conversation_id r,
                   sender = Assistant,
                   content_json = Text (''I received your message: '' @ get_text (content_json t))\<rparr>
                 # imgs)"
    if r: "runs (session w) rid = Some r"
      and t: "find (\<lambda>m. message_id m = trigger_message_id r) (messages (session w)) = Some t"
      and c: "conversations (session w) (run_conversation_id r) = Some u"
      and a: "\<not> pending_rollback w"
      and m: "media_insert_error e = None" "image_insert_error e = None"
      and raises: "send_message e (if 1 < length (run_context r w) then butlast (run_context r w) else [])
            (get_text (content_json t)) = Inl err'"
  proof -
    have nr: "\<not> flush_refused e (generate_visual (get_text (content_json t)))"
      using m by (rule no_insert_refused)
    have rt: "reply_text r t e w = ''I received your message: '' @ get_text (content_json t)"
      unfolding reply_text_def using assms raises by (rule gemini_fallback)
    from execute_success_content[OF r t a nr c] show ?thesis
      by (auto simp: rt)
  qed
  from one two show ?thesis
    by blast
qed

theorem capability_failure_falls_back_witness:
  "GEMINI_API_KEY (demo_env\<lparr>GEMINI_API_KEY := Some ''key'',
       send_message := (\<lambda>history x. if x = ''hello'' then Inl ''quota exceeded'' else Inr ''Hi'')\<rparr>) =
     Some ''key'' \<and>
   send_message (demo_env\<lparr>GEMINI_API_KEY := Some ''key'',
       send_message := (\<lambda>history x. if x = ''hello'' then Inl ''quota exceeded'' else Inr ''Hi'')\<rparr>)
     [] ''hello'' = Inl ''quota exceeded'' \<and>
   fst (run_gemini_agent (demo_env\<lparr>GEMINI_API_KEY := Some ''key'',
       send_message := (\<lambda>history x. if x = ''hello'' then Inl ''quota exceeded'' else Inr ''Hi'')\<rparr>)
     [] ''hello'' (demo_world ''hello'')) = ''I received your message: hello'' \<and>
   fst (execute_agent_run 3 (demo_env\<lparr>GEMINI_API_KEY := Some ''key'',
       send_message := (\<lambda>history x. if x = ''hello'' then Inl ''quota exceeded'' else Inr ''Hi'')\<rparr>)
     (demo_world ''hello'')) = Returned \<and>
   (\<exists>rf. runs (committed (snd (execute_agent_run 3 (demo_env\<lparr>GEMINI_API_KEY := Some ''key'',
       send_message := (\<lambda>history x. if x = ''hello'' then Inl ''quota exceeded'' else Inr ''Hi'')\<rparr>)
     (demo_world ''hello'')))) 3 = Some rf \<and> status rf = Succeeded)"
proof -
  let ?e = "demo_env\<lparr>GEMINI_API_KEY := Some ''key'',
       send_message := (\<lambda>history x. if x = ''hello'' then Inl ''quota exceeded'' else Inr ''Hi'')\<rparr>"
  have k: "GEMINI_API_KEY ?e = Some ''key''" "''key'' \<noteq> []"
    and m: "media_insert_error ?e = None" "image_insert_error ?e = None"
    and raises: "send_message ?e h ''hello'' = Inl ''quota exceeded''" for h
    by (simp_all add: demo_env_def)
  from capability_failure_falls_back[OF k, where ctx = "[]" and user_text = "''hello''"
      and err = "''quota exceeded''" and err' = "''quota exceeded''"
      and ?w0.0 = "demo_world ''hello''" and w = "demo_world ''hello''" and rid = 3 and r = demo_run
      and t = "\<lparr>message_id = 2, message_conversation_id = 1, sender = User,
                content_json = Text ''hello''\<rparr>"
      and u = 7]
    demo_facts[of "''hello''"] demo_conversation[of "''hello''"] demo_active[of "''hello''"] m raises k
  show ?thesis
    by auto
qed

end
